theory Spec2Isabelle
  imports Complex_Main
begin

section \<open>Python values shared by both files\<close>

text \<open>
  A Python \<open>dict\<close> keeps its keys in insertion order. The assignment \<open>d[k] = v\<close>
  replaces the value of a key that is present, leaving the key where it is, and adds a
  key that is absent at the end. A dict is modelled as the list of its items.
\<close>

fun dict_set :: "'k \<Rightarrow> 'v \<Rightarrow> ('k \<times> 'v) list \<Rightarrow> ('k \<times> 'v) list" where
  "dict_set k v [] = [(k, v)]"
| "dict_set k v ((k', v') # d) =
     (if k' = k then (k, v) # d else (k', v') # dict_set k v d)"

definition dict_keys :: "('k \<times> 'v) list \<Rightarrow> 'k list" where
  "dict_keys d = map fst d"

definition dict_values :: "('k \<times> 'v) list \<Rightarrow> 'v list" where
  "dict_values d = map snd d"

text \<open>
  A chain of method calls \<open>obj.m1(a).m2(b)\<close> in which every method returns the object
  it was called on: the calls are applied to the object from left to right.
\<close>

definition chain :: "'a \<Rightarrow> ('a \<Rightarrow> 'a) list \<Rightarrow> 'a" where
  "chain obj calls = fold (\<lambda>call self. call self) calls obj"


section \<open>torch/ao/quantization/backend_config/executorch.py\<close>

subsection \<open>Framework types\<close>

text \<open>
  An object of the framework (a module class, a function) is identified by the
  qualified name under which the source refers to it; \<open>F\<close>, \<open>nn\<close>, \<open>nnqat\<close> and
  \<open>nnqr\<close> are the source's import aliases, written out.
\<close>

type_synonym torch_ref = string

datatype torch_dtype = torch_quint8 | torch_qint8 | torch_float | torch_float16

datatype ObservationType =
    OUTPUT_USE_DIFFERENT_OBSERVER_AS_INPUT
  | OUTPUT_SHARE_OBSERVER_WITH_INPUT

text \<open>
  Modelled from the spec: the classes \<open>DTypeWithConstraints\<close>, \<open>DTypeConfig\<close>,
  \<open>BackendPatternConfig\<close> and \<open>BackendConfig\<close> of
  \<open>torch/ao/quantization/backend_config/backend_config.py\<close> are not among the source
  files. The spec calls them framework-native configuration objects with builder-pattern
  setters that declare which operator patterns use which quantization data-type rules.
  Each is a record of the keyword arguments and setters that \<open>executorch.py\<close> uses;
  a keyword that is not passed and a setter that is not called leave \<open>None\<close> (an
  empty list or dict for a collection). The lower bound \<open>2 ** -12\<close> is a Python float;
  it is a power of two, so the binary64 value is the rational number itself.
\<close>

record DTypeWithConstraints =
  dtype :: "torch_dtype option"
  quant_min_lower_bound :: "int option"
  quant_max_upper_bound :: "int option"
  scale_min_lower_bound :: "rat option"

text \<open>
  The dtype arguments of \<open>DTypeConfig\<close> are either a plain \<open>torch.dtype\<close> or a
  \<open>DTypeWithConstraints\<close>.
\<close>

datatype dtype_arg = Plain torch_dtype | Constrained DTypeWithConstraints

record DTypeConfig =
  input_dtype :: "dtype_arg option"
  output_dtype :: "dtype_arg option"
  weight_dtype :: "dtype_arg option"
  bias_dtype :: "torch_dtype option"
  is_dynamic :: "bool option"

text \<open>
  An operator pattern is a framework object, a method name given as a string, or a
  pair of patterns (the source writes the pair for an operator followed by ReLU with
  the ReLU first).
\<close>

datatype pattern = Callable torch_ref | Method string | Tuple pattern pattern

text \<open>
  Modelled from the spec: \<open>_reverse_sequential_wrapper2\<close> of
  \<open>torch/ao/quantization/fuser_method_mappings.py\<close> is not among the source files;
  the fuser method it returns is kept as the application itself.
\<close>

datatype fuser_method = reverse_sequential_wrapper2 torch_ref

record BackendPatternConfig =
  pattern :: pattern
  observation_type :: "ObservationType option"
  dtype_configs :: "DTypeConfig list"
  root_module :: "torch_ref option"
  reference_quantized_module :: "torch_ref option"
  qat_module :: "torch_ref option"
  fuser_method :: "fuser_method option"
  fused_module :: "torch_ref option"
  input_type_to_index :: "(string \<times> int) list"
  num_tensor_args_to_observation_type :: "(int \<times> ObservationType) list"

record BackendConfig =
  name :: string
  configs :: "(pattern \<times> BackendPatternConfig) list"

text \<open>
  \<open>_Conv2dMetadata\<close> of \<open>_common_operator_config_utils.py\<close> is not among the
  source files either, and the spec says nothing about it: the functions below take it
  as a parameter. These are the attributes that \<open>_get_conv_configs\<close> reads.
\<close>

record ConvMetadata =
  root :: torch_ref
  reference :: torch_ref
  qat :: torch_ref
  relu_qat :: torch_ref
  func :: torch_ref
  fused_conv_relu :: torch_ref

subsection \<open>Constructors and setters\<close>

text \<open>
  Modelled from the spec: the constructors and the setters of \<open>BackendPatternConfig\<close>
  and \<open>BackendConfig\<close> are not among the source files. As builder-pattern setters,
  each stores its argument under the attribute it is named after and returns the config
  it was called on.
\<close>

definition BackendPatternConfig_init :: "pattern \<Rightarrow> BackendPatternConfig" where
  "BackendPatternConfig_init p =
     \<lparr>pattern = p, observation_type = None, dtype_configs = [], root_module = None,
      reference_quantized_module = None, qat_module = None, fuser_method = None,
      fused_module = None, input_type_to_index = [],
      num_tensor_args_to_observation_type = []\<rparr>"

definition set_observation_type ::
    "ObservationType \<Rightarrow> BackendPatternConfig \<Rightarrow> BackendPatternConfig" where
  "set_observation_type v self = self\<lparr>observation_type := Some v\<rparr>"

definition set_dtype_configs ::
    "DTypeConfig list \<Rightarrow> BackendPatternConfig \<Rightarrow> BackendPatternConfig" where
  "set_dtype_configs v self = self\<lparr>dtype_configs := v\<rparr>"

definition set_root_module :: "torch_ref \<Rightarrow> BackendPatternConfig \<Rightarrow> BackendPatternConfig" where
  "set_root_module v self = self\<lparr>root_module := Some v\<rparr>"

definition set_reference_quantized_module ::
    "torch_ref \<Rightarrow> BackendPatternConfig \<Rightarrow> BackendPatternConfig" where
  "set_reference_quantized_module v self = self\<lparr>reference_quantized_module := Some v\<rparr>"

definition set_qat_module :: "torch_ref \<Rightarrow> BackendPatternConfig \<Rightarrow> BackendPatternConfig" where
  "set_qat_module v self = self\<lparr>qat_module := Some v\<rparr>"

definition set_fuser_method ::
    "fuser_method \<Rightarrow> BackendPatternConfig \<Rightarrow> BackendPatternConfig" where
  "set_fuser_method v self = self\<lparr>fuser_method := Some v\<rparr>"

definition set_fused_module :: "torch_ref \<Rightarrow> BackendPatternConfig \<Rightarrow> BackendPatternConfig" where
  "set_fused_module v self = self\<lparr>fused_module := Some v\<rparr>"

definition set_input_type_to_index ::
    "(string \<times> int) list \<Rightarrow> BackendPatternConfig \<Rightarrow> BackendPatternConfig" where
  "set_input_type_to_index v self = self\<lparr>input_type_to_index := v\<rparr>"

definition set_num_tensor_args_to_observation_type ::
    "(int \<times> ObservationType) list \<Rightarrow> BackendPatternConfig \<Rightarrow> BackendPatternConfig" where
  "set_num_tensor_args_to_observation_type v self =
     self\<lparr>num_tensor_args_to_observation_type := v\<rparr>"

definition BackendConfig_init :: "string \<Rightarrow> BackendConfig" where
  "BackendConfig_init n = \<lparr>name = n, configs = []\<rparr>"

text \<open>
  Modelled from the spec: \<open>set_backend_pattern_config\<close> and
  \<open>set_backend_pattern_configs\<close> are not among the source files. The table of a
  \<open>BackendConfig\<close> says which operator pattern uses which rules, so it is keyed by
  operator pattern: setting a pattern config declares the rules of its pattern, in place
  of any config set for the same pattern before.
\<close>

definition set_backend_pattern_config ::
    "BackendPatternConfig \<Rightarrow> BackendConfig \<Rightarrow> BackendConfig" where
  "set_backend_pattern_config config self =
     self\<lparr>configs := dict_set (pattern config) config (configs self)\<rparr>"

definition set_backend_pattern_configs ::
    "BackendPatternConfig list \<Rightarrow> BackendConfig \<Rightarrow> BackendConfig" where
  "set_backend_pattern_configs confs self = fold set_backend_pattern_config confs self"

subsection \<open>DType configs\<close>

definition executorch_weighted_op_int8_dtype_config :: DTypeConfig where
  "executorch_weighted_op_int8_dtype_config =
     \<lparr>input_dtype = Some (Plain torch_quint8),
      output_dtype = Some (Plain torch_quint8),
      weight_dtype = Some (Plain torch_qint8),
      bias_dtype = Some torch_float,
      is_dynamic = None\<rparr>"

definition executorch_default_op_quint8_dtype_config :: DTypeConfig where
  "executorch_default_op_quint8_dtype_config =
     \<lparr>input_dtype = Some (Plain torch_quint8),
      output_dtype = Some (Plain torch_quint8),
      weight_dtype = None,
      bias_dtype = None,
      is_dynamic = None\<rparr>"

definition executorch_default_dynamic_int8_dtype_config :: DTypeConfig where
  "executorch_default_dynamic_int8_dtype_config =
     \<lparr>input_dtype = Some (Plain torch_quint8),
      output_dtype = Some (Plain torch_float),
      weight_dtype = Some (Plain torch_qint8),
      bias_dtype = Some torch_float,
      is_dynamic = Some True\<rparr>"

definition executorch_default_dynamic_float16_dtype_config :: DTypeConfig where
  "executorch_default_dynamic_float16_dtype_config =
     \<lparr>input_dtype = Some (Plain torch_float16),
      output_dtype = Some (Plain torch_float),
      weight_dtype = Some (Plain torch_float16),
      bias_dtype = Some torch_float,
      is_dynamic = Some True\<rparr>"

definition executorch_act_qint8_scale_min_2_neg_12 :: DTypeWithConstraints where
  "executorch_act_qint8_scale_min_2_neg_12 =
     \<lparr>dtype = Some torch_qint8,
      quant_min_lower_bound = None,
      quant_max_upper_bound = None,
      scale_min_lower_bound = Some (2 powi (- 12))\<rparr>"

definition executorch_weight_qint8_neg_127_to_127_scale_min_2_neg_12 :: DTypeWithConstraints where
  "executorch_weight_qint8_neg_127_to_127_scale_min_2_neg_12 =
     \<lparr>dtype = Some torch_qint8,
      quant_min_lower_bound = Some (- 127),
      quant_max_upper_bound = Some 127,
      scale_min_lower_bound = Some (2 powi (- 12))\<rparr>"

definition executorch_weighted_op_qint8_symmetric_dtype_config :: DTypeConfig where
  "executorch_weighted_op_qint8_symmetric_dtype_config =
     \<lparr>input_dtype = Some (Constrained executorch_act_qint8_scale_min_2_neg_12),
      output_dtype = Some (Constrained executorch_act_qint8_scale_min_2_neg_12),
      weight_dtype = Some (Constrained executorch_weight_qint8_neg_127_to_127_scale_min_2_neg_12),
      bias_dtype = Some torch_float,
      is_dynamic = None\<rparr>"

definition executorch_default_op_qint8_symmetric_dtype_config :: DTypeConfig where
  "executorch_default_op_qint8_symmetric_dtype_config =
     \<lparr>input_dtype = Some (Constrained executorch_act_qint8_scale_min_2_neg_12),
      output_dtype = Some (Constrained executorch_act_qint8_scale_min_2_neg_12),
      weight_dtype = None,
      bias_dtype = None,
      is_dynamic = None\<rparr>"

subsection \<open>Backend pattern configs\<close>

text \<open>
  The leading underscore of the source's private names (\<open>_get_linear_configs\<close>,
  \<open>_set_input_type_to_index\<close>, ...) is dropped: an identifier starts with a letter.
\<close>

definition get_linear_configs :: "BackendPatternConfig list" where
  "get_linear_configs =
     (let observation_type = OUTPUT_USE_DIFFERENT_OBSERVER_AS_INPUT;
          dtype_configs = [
            executorch_weighted_op_qint8_symmetric_dtype_config,
            executorch_weighted_op_int8_dtype_config,
            executorch_default_dynamic_int8_dtype_config,
            executorch_default_dynamic_float16_dtype_config];
          linear_configs = [];
          linear_configs = linear_configs @ [
            chain (BackendPatternConfig_init (Callable ''torch.nn.Linear''))
              [set_observation_type observation_type,
               set_dtype_configs dtype_configs,
               set_root_module ''torch.nn.Linear'',
               set_reference_quantized_module ''torch.nn.quantized._reference.Linear'',
               set_qat_module ''torch.nn.qat.Linear'']];
          linear_configs = linear_configs @ [
            chain (BackendPatternConfig_init (Callable ''torch.nn.functional.linear''))
              [set_observation_type observation_type,
               set_dtype_configs dtype_configs,
               set_input_type_to_index [(''weight'', 1), (''bias'', 2)]]]
      in linear_configs)"

definition get_conv_configs :: "ConvMetadata \<Rightarrow> BackendPatternConfig list" where
  "get_conv_configs Conv2dMetadata =
     (let observation_type = OUTPUT_USE_DIFFERENT_OBSERVER_AS_INPUT;
          dtype_configs = [
            executorch_weighted_op_qint8_symmetric_dtype_config,
            executorch_weighted_op_int8_dtype_config]
      in fold (\<lambda>convs conv_configs. conv_configs @ [
            chain (BackendPatternConfig_init (Callable (root convs)))
              [set_observation_type observation_type,
               set_dtype_configs dtype_configs,
               set_root_module (root convs),
               set_reference_quantized_module (reference convs),
               set_qat_module (qat convs)],
            chain (BackendPatternConfig_init (Callable (func convs)))
              [set_observation_type observation_type,
               set_dtype_configs dtype_configs,
               set_input_type_to_index [(''weight'', 1), (''bias'', 2)]],
            chain (BackendPatternConfig_init
                     (Tuple (Callable ''torch.nn.ReLU'') (Callable (root convs))))
              [set_dtype_configs dtype_configs,
               set_fuser_method (reverse_sequential_wrapper2 (fused_conv_relu convs)),
               set_fused_module (fused_conv_relu convs)],
            chain (BackendPatternConfig_init
                     (Tuple (Callable ''torch.nn.functional.relu'') (Callable (root convs))))
              [set_dtype_configs dtype_configs,
               set_fuser_method (reverse_sequential_wrapper2 (fused_conv_relu convs)),
               set_fused_module (fused_conv_relu convs)],
            chain (BackendPatternConfig_init (Callable (fused_conv_relu convs)))
              [set_observation_type observation_type,
               set_dtype_configs dtype_configs,
               set_root_module (root convs),
               set_reference_quantized_module (reference convs),
               set_qat_module (relu_qat convs)],
            chain (BackendPatternConfig_init
                     (Tuple (Callable ''torch.nn.ReLU'') (Callable (func convs))))
              [set_observation_type observation_type,
               set_dtype_configs dtype_configs],
            chain (BackendPatternConfig_init
                     (Tuple (Callable ''torch.nn.functional.relu'') (Callable (func convs))))
              [set_observation_type observation_type,
               set_dtype_configs dtype_configs]])
          [Conv2dMetadata] [])"

definition get_binary_ops_configs :: "BackendPatternConfig list" where
  "get_binary_ops_configs =
     (let dtype_configs = [
            executorch_default_op_qint8_symmetric_dtype_config,
            executorch_weighted_op_int8_dtype_config];
          num_tensor_args_to_observation_type_mapping = [
            (0, OUTPUT_USE_DIFFERENT_OBSERVER_AS_INPUT),
            (1, OUTPUT_SHARE_OBSERVER_WITH_INPUT),
            (2, OUTPUT_USE_DIFFERENT_OBSERVER_AS_INPUT)]
      in fold (\<lambda>op binary_op_configs. binary_op_configs @ [
            chain (BackendPatternConfig_init op)
              [set_dtype_configs dtype_configs,
               set_num_tensor_args_to_observation_type
                 num_tensor_args_to_observation_type_mapping]])
          [Callable ''operator.add'', Callable ''torch.add''] [])"

definition get_share_qparams_ops_configs :: "BackendPatternConfig list" where
  "get_share_qparams_ops_configs =
     (let observation_type = OUTPUT_SHARE_OBSERVER_WITH_INPUT;
          dtype_configs = [
            executorch_default_op_qint8_symmetric_dtype_config,
            executorch_default_op_quint8_dtype_config];
          share_qparams_ops = [
            Callable ''torch.nn.functional.adaptive_avg_pool2d'',
            Callable ''torch.nn.functional.relu'',
            Callable ''torch.nn.functional.relu6'',
            Callable ''torch.nn.AdaptiveAvgPool2d'',
            Callable ''torch.squeeze'',
            Method ''permute'',
            Method ''reshape'',
            Method ''relu'',
            Method ''relu_'',
            Method ''squeeze'',
            Method ''squeeze_'']
      in fold (\<lambda>op share_qparams_op_configs. share_qparams_op_configs @ [
            chain (BackendPatternConfig_init op)
              [set_observation_type observation_type,
               set_dtype_configs dtype_configs]])
          share_qparams_ops [])"

definition get_bn_configs :: "BackendPatternConfig list" where
  "get_bn_configs =
     (let observation_type = OUTPUT_USE_DIFFERENT_OBSERVER_AS_INPUT;
          dtype_configs = [
            executorch_default_op_qint8_symmetric_dtype_config,
            executorch_default_op_quint8_dtype_config];
          bn_configs = [];
          bn_configs = bn_configs @ [
            chain (BackendPatternConfig_init (Callable ''torch.nn.BatchNorm2d''))
              [set_observation_type observation_type,
               set_dtype_configs dtype_configs]]
      in bn_configs)"

definition get_cat_configs :: "BackendPatternConfig list" where
  "get_cat_configs =
     (let dtype_configs = [
            executorch_default_op_qint8_symmetric_dtype_config,
            executorch_default_op_quint8_dtype_config];
          cat_configs = [];
          cat_configs = cat_configs @ [
            chain (BackendPatternConfig_init (Callable ''torch.cat''))
              [set_observation_type OUTPUT_SHARE_OBSERVER_WITH_INPUT,
               set_dtype_configs dtype_configs]]
      in cat_configs)"

subsection \<open>Backend config\<close>

definition get_executorch_backend_config :: "ConvMetadata \<Rightarrow> BackendConfig" where
  "get_executorch_backend_config Conv2dMetadata =
     chain (BackendConfig_init ''executorch'')
       [set_backend_pattern_configs get_linear_configs,
        set_backend_pattern_configs (get_conv_configs Conv2dMetadata),
        set_backend_pattern_configs get_binary_ops_configs,
        set_backend_pattern_configs get_share_qparams_ops_configs,
        set_backend_pattern_configs get_bn_configs,
        set_backend_pattern_configs get_cat_configs]"


subsection \<open>A value for the parameter\<close>

text \<open>
  The attributes of the framework's metadata for two-dimensional convolution, under the
  names the framework gives these objects; the concrete value at which the theorems
  below are instantiated.
\<close>

definition conv2d :: ConvMetadata where
  "conv2d =
     \<lparr>root = ''torch.nn.Conv2d'',
      reference = ''torch.nn.quantized._reference.Conv2d'',
      qat = ''torch.nn.qat.Conv2d'',
      relu_qat = ''torch.nn.intrinsic.qat.ConvReLU2d'',
      func = ''torch.nn.functional.conv2d'',
      fused_conv_relu = ''torch.nn.intrinsic.ConvReLU2d''\<rparr>"


section \<open>executorch.py on a store of objects\<close>

text \<open>
  The definitions above give the value that each expression of \<open>executorch.py\<close>
  denotes. In Python the configs are objects: a constructor allocates a new object, a
  builder setter assigns to an attribute of \<open>self\<close> and returns \<open>self\<close>, and a list or
  a table of configs holds references. This section runs the same source on a store of
  objects, one block of addresses for each class, an address being the index of the
  object in its block. The DTypeConfig constants of the module and the local
  \<open>dtype_configs\<close> lists are never assigned to after they are created, so they stay
  values.
\<close>

text \<open>
  Modelled from the spec: the constructors and setters of the two classes, which are not
  among the source files, as they act on objects. A constructor allocates, and a
  builder-pattern setter assigns to its attribute of \<open>self\<close> what the setter of the
  previous section stores, and returns \<open>self\<close>.
\<close>

type_synonym addr = nat

record BackendConfig_object =
  object_name :: string
  object_configs :: "(pattern \<times> addr) list"

record store =
  pattern_config_objects :: "BackendPatternConfig list"
  backend_config_objects :: "BackendConfig_object list"

definition BackendPatternConfig_new :: "pattern \<Rightarrow> store \<Rightarrow> addr \<times> store" where
  "BackendPatternConfig_new p s =
     (length (pattern_config_objects s),
      s\<lparr>pattern_config_objects := pattern_config_objects s @ [BackendPatternConfig_init p]\<rparr>)"

text \<open>
  A call \<open>self.set_x(v)\<close> of a setter of BackendPatternConfig: the object at \<open>self\<close> is
  updated in place and \<open>self\<close> is returned.
\<close>

definition call_setter ::
    "(BackendPatternConfig \<Rightarrow> BackendPatternConfig) \<Rightarrow> addr \<Rightarrow> store \<Rightarrow> addr \<times> store" where
  "call_setter setter self s =
     (if self < length (pattern_config_objects s)
      then (self, s\<lparr>pattern_config_objects :=
               (pattern_config_objects s)[self := setter (pattern_config_objects s ! self)]\<rparr>)
      else (self, s))"

text \<open>The expression \<open>BackendPatternConfig(p).set_x(v). ... .set_y(w)\<close>.\<close>

definition new_chain ::
    "pattern \<Rightarrow> (BackendPatternConfig \<Rightarrow> BackendPatternConfig) list \<Rightarrow> store \<Rightarrow> addr \<times> store" where
  "new_chain p calls s =
     fold (\<lambda>call (self, s). call_setter call self s) calls (BackendPatternConfig_new p s)"

definition BackendConfig_new :: "string \<Rightarrow> store \<Rightarrow> addr \<times> store" where
  "BackendConfig_new n s =
     (length (backend_config_objects s),
      s\<lparr>backend_config_objects :=
          backend_config_objects s @ [\<lparr>object_name = n, object_configs = []\<rparr>]\<rparr>)"

text \<open>
  \<open>self.set_backend_pattern_config(config)\<close>: the table of the BackendConfig at
  \<open>self\<close> gets the reference \<open>config\<close> under the pattern of the object it refers to.
\<close>

definition set_backend_pattern_config_obj :: "addr \<Rightarrow> addr \<Rightarrow> store \<Rightarrow> addr \<times> store" where
  "set_backend_pattern_config_obj config self s =
     (if self < length (backend_config_objects s)
      then (self, s\<lparr>backend_config_objects :=
               (backend_config_objects s)[self :=
                  (backend_config_objects s ! self)\<lparr>object_configs :=
                     dict_set (pattern (pattern_config_objects s ! config)) config
                       (object_configs (backend_config_objects s ! self))\<rparr>]\<rparr>)
      else (self, s))"

definition set_backend_pattern_configs_obj :: "addr list \<Rightarrow> addr \<Rightarrow> store \<Rightarrow> addr \<times> store" where
  "set_backend_pattern_configs_obj confs self s =
     fold (\<lambda>conf (self, s). set_backend_pattern_config_obj conf self s) confs (self, s)"

text \<open>
  A call \<open>self.method(arg())\<close>: the argument is evaluated, then the method is called
  on \<open>self\<close>.
\<close>

definition call_with ::
    "(store \<Rightarrow> 'a \<times> store) \<Rightarrow> ('a \<Rightarrow> addr \<Rightarrow> store \<Rightarrow> addr \<times> store)
      \<Rightarrow> addr \<Rightarrow> store \<Rightarrow> addr \<times> store" where
  "call_with arg method self s = (let (a, s) = arg s in method a self s)"

definition get_linear_configs_obj :: "store \<Rightarrow> addr list \<times> store" where
  "get_linear_configs_obj s =
     (let observation_type = OUTPUT_USE_DIFFERENT_OBSERVER_AS_INPUT;
          dtype_configs = [
            executorch_weighted_op_qint8_symmetric_dtype_config,
            executorch_weighted_op_int8_dtype_config,
            executorch_default_dynamic_int8_dtype_config,
            executorch_default_dynamic_float16_dtype_config];
          linear_configs = [];
          (config, s) = new_chain (Callable ''torch.nn.Linear'')
              [set_observation_type observation_type,
               set_dtype_configs dtype_configs,
               set_root_module ''torch.nn.Linear'',
               set_reference_quantized_module ''torch.nn.quantized._reference.Linear'',
               set_qat_module ''torch.nn.qat.Linear''] s;
          linear_configs = linear_configs @ [config];
          (config, s) = new_chain (Callable ''torch.nn.functional.linear'')
              [set_observation_type observation_type,
               set_dtype_configs dtype_configs,
               set_input_type_to_index [(''weight'', 1), (''bias'', 2)]] s;
          linear_configs = linear_configs @ [config]
      in (linear_configs, s))"

definition get_conv_configs_obj :: "ConvMetadata \<Rightarrow> store \<Rightarrow> addr list \<times> store" where
  "get_conv_configs_obj Conv2dMetadata s =
     (let observation_type = OUTPUT_USE_DIFFERENT_OBSERVER_AS_INPUT;
          dtype_configs = [
            executorch_weighted_op_qint8_symmetric_dtype_config,
            executorch_weighted_op_int8_dtype_config]
      in fold (\<lambda>convs (conv_configs, s).
            let (config, s) = new_chain (Callable (root convs))
                  [set_observation_type observation_type,
                   set_dtype_configs dtype_configs,
                   set_root_module (root convs),
                   set_reference_quantized_module (reference convs),
                   set_qat_module (qat convs)] s;
                conv_configs = conv_configs @ [config];
                (config, s) = new_chain (Callable (ConvMetadata.func convs))
                  [set_observation_type observation_type,
                   set_dtype_configs dtype_configs,
                   set_input_type_to_index [(''weight'', 1), (''bias'', 2)]] s;
                conv_configs = conv_configs @ [config];
                (config, s) = new_chain
                  (Tuple (Callable ''torch.nn.ReLU'') (Callable (root convs)))
                  [set_dtype_configs dtype_configs,
                   set_fuser_method (reverse_sequential_wrapper2 (fused_conv_relu convs)),
                   set_fused_module (fused_conv_relu convs)] s;
                conv_configs = conv_configs @ [config];
                (config, s) = new_chain
                  (Tuple (Callable ''torch.nn.functional.relu'') (Callable (root convs)))
                  [set_dtype_configs dtype_configs,
                   set_fuser_method (reverse_sequential_wrapper2 (fused_conv_relu convs)),
                   set_fused_module (fused_conv_relu convs)] s;
                conv_configs = conv_configs @ [config];
                (config, s) = new_chain (Callable (fused_conv_relu convs))
                  [set_observation_type observation_type,
                   set_dtype_configs dtype_configs,
                   set_root_module (root convs),
                   set_reference_quantized_module (reference convs),
                   set_qat_module (relu_qat convs)] s;
                conv_configs = conv_configs @ [config];
                (config, s) = new_chain
                  (Tuple (Callable ''torch.nn.ReLU'') (Callable (ConvMetadata.func convs)))
                  [set_observation_type observation_type,
                   set_dtype_configs dtype_configs] s;
                conv_configs = conv_configs @ [config];
                (config, s) = new_chain
                  (Tuple (Callable ''torch.nn.functional.relu'')
                     (Callable (ConvMetadata.func convs)))
                  [set_observation_type observation_type,
                   set_dtype_configs dtype_configs] s;
                conv_configs = conv_configs @ [config]
            in (conv_configs, s))
          [Conv2dMetadata] ([], s))"

definition get_binary_ops_configs_obj :: "store \<Rightarrow> addr list \<times> store" where
  "get_binary_ops_configs_obj s =
     (let dtype_configs = [
            executorch_default_op_qint8_symmetric_dtype_config,
            executorch_weighted_op_int8_dtype_config];
          num_tensor_args_to_observation_type_mapping = [
            (0, OUTPUT_USE_DIFFERENT_OBSERVER_AS_INPUT),
            (1, OUTPUT_SHARE_OBSERVER_WITH_INPUT),
            (2, OUTPUT_USE_DIFFERENT_OBSERVER_AS_INPUT)]
      in fold (\<lambda>op (binary_op_configs, s).
            let (config, s) = new_chain op
                  [set_dtype_configs dtype_configs,
                   set_num_tensor_args_to_observation_type
                     num_tensor_args_to_observation_type_mapping] s
            in (binary_op_configs @ [config], s))
          [Callable ''operator.add'', Callable ''torch.add''] ([], s))"

definition get_share_qparams_ops_configs_obj :: "store \<Rightarrow> addr list \<times> store" where
  "get_share_qparams_ops_configs_obj s =
     (let observation_type = OUTPUT_SHARE_OBSERVER_WITH_INPUT;
          dtype_configs = [
            executorch_default_op_qint8_symmetric_dtype_config,
            executorch_default_op_quint8_dtype_config];
          share_qparams_ops = [
            Callable ''torch.nn.functional.adaptive_avg_pool2d'',
            Callable ''torch.nn.functional.relu'',
            Callable ''torch.nn.functional.relu6'',
            Callable ''torch.nn.AdaptiveAvgPool2d'',
            Callable ''torch.squeeze'',
            Method ''permute'',
            Method ''reshape'',
            Method ''relu'',
            Method ''relu_'',
            Method ''squeeze'',
            Method ''squeeze_'']
      in fold (\<lambda>op (share_qparams_op_configs, s).
            let (config, s) = new_chain op
                  [set_observation_type observation_type,
                   set_dtype_configs dtype_configs] s
            in (share_qparams_op_configs @ [config], s))
          share_qparams_ops ([], s))"

definition get_bn_configs_obj :: "store \<Rightarrow> addr list \<times> store" where
  "get_bn_configs_obj s =
     (let observation_type = OUTPUT_USE_DIFFERENT_OBSERVER_AS_INPUT;
          dtype_configs = [
            executorch_default_op_qint8_symmetric_dtype_config,
            executorch_default_op_quint8_dtype_config];
          bn_configs = [];
          (config, s) = new_chain (Callable ''torch.nn.BatchNorm2d'')
              [set_observation_type observation_type,
               set_dtype_configs dtype_configs] s;
          bn_configs = bn_configs @ [config]
      in (bn_configs, s))"

definition get_cat_configs_obj :: "store \<Rightarrow> addr list \<times> store" where
  "get_cat_configs_obj s =
     (let dtype_configs = [
            executorch_default_op_qint8_symmetric_dtype_config,
            executorch_default_op_quint8_dtype_config];
          cat_configs = [];
          (config, s) = new_chain (Callable ''torch.cat'')
              [set_observation_type OUTPUT_SHARE_OBSERVER_WITH_INPUT,
               set_dtype_configs dtype_configs] s;
          cat_configs = cat_configs @ [config]
      in (cat_configs, s))"

definition get_executorch_backend_config_obj :: "ConvMetadata \<Rightarrow> store \<Rightarrow> addr \<times> store" where
  "get_executorch_backend_config_obj Conv2dMetadata s =
     fold (\<lambda>call (self, s). call self s)
       [call_with get_linear_configs_obj set_backend_pattern_configs_obj,
        call_with (get_conv_configs_obj Conv2dMetadata) set_backend_pattern_configs_obj,
        call_with get_binary_ops_configs_obj set_backend_pattern_configs_obj,
        call_with get_share_qparams_ops_configs_obj set_backend_pattern_configs_obj,
        call_with get_bn_configs_obj set_backend_pattern_configs_obj,
        call_with get_cat_configs_obj set_backend_pattern_configs_obj]
       (BackendConfig_new ''executorch'' s)"

text \<open>
  The value of the BackendConfig at an address: its name and its table, every reference
  of the table replaced by the object it refers to. \<open>None\<close> for an address, or a
  reference in the table, at which the store has no object.
\<close>

definition represents ::
    "BackendPatternConfig list \<Rightarrow> BackendConfig_object \<Rightarrow> BackendConfig \<Rightarrow> bool" where
  "represents objects b v \<longleftrightarrow>
     list_all (\<lambda>(p, a). a < length objects) (object_configs b)
     \<and> v = \<lparr>BackendConfig.name = object_name b,
            configs = map (\<lambda>(p, a). (p, objects ! a)) (object_configs b)\<rparr>"

definition read_backend_config :: "store \<Rightarrow> addr \<Rightarrow> BackendConfig option" where
  "read_backend_config s self =
     (if self < length (backend_config_objects s)
         \<and> list_all (\<lambda>(p, a). a < length (pattern_config_objects s))
             (object_configs (backend_config_objects s ! self))
      then Some \<lparr>BackendConfig.name = object_name (backend_config_objects s ! self),
                 configs = map (\<lambda>(p, a). (p, pattern_config_objects s ! a))
                             (object_configs (backend_config_objects s ! self))\<rparr>
      else None)"

definition empty_store :: store where
  "empty_store = \<lparr>pattern_config_objects = [], backend_config_objects = []\<rparr>"

text \<open>
  A store in which a pattern config and a BackendConfig holding it already exist, as
  after some earlier use of the framework.
\<close>

definition used_store :: store where
  "used_store =
     \<lparr>pattern_config_objects =
        [set_dtype_configs [executorch_default_op_quint8_dtype_config]
           (BackendPatternConfig_init (Method ''relu''))],
      backend_config_objects =
        [\<lparr>object_name = ''native'', object_configs = [(Method ''relu'', 0)]\<rparr>]\<rparr>"


section \<open>aten_docgen.py\<close>

subsection \<open>Operator metadata\<close>

text \<open>
  Modelled from the spec: the classes \<open>FunctionSchema\<close>, \<open>NativeFunction\<close>,
  \<open>NativeFunctionsGroup\<close> and \<open>NativeFunctionsViewGroup\<close> of \<open>torchgen.model\<close> are
  not among the source files; the spec calls their instances records already produced by
  the host framework. Each is a record of the attributes the script reads. The methods
  \<open>signature()\<close>, \<open>aliased_return_names()\<close> and \<open>is_functional_fn()\<close> of a schema take
  no argument, so what they return is a field of the record. An operator name and a
  signature stand for themselves as the text that is printed for them.
\<close>

type_synonym OperatorName = string

record FunctionSchema =
  name :: OperatorName
  signature :: string
  aliased_return_names :: "string option list"
  is_functional_fn :: bool

record NativeFunction =
  func :: FunctionSchema
  tags :: "string set"

text \<open>
  The script tests \<open>g.out\<close>, \<open>g.inplace\<close>, \<open>g.view_copy\<close> and \<open>g.view_inplace\<close>
  for truth before it reads them: each is a function or \<open>None\<close>.
\<close>

record NativeFunctionsGroup =
  functional :: NativeFunction
  inplace :: "NativeFunction option"
  out :: "NativeFunction option"

record NativeFunctionsViewGroup =
  view :: NativeFunction
  view_copy :: "NativeFunction option"
  view_inplace :: "NativeFunction option"

text \<open>
  The grouping functions return a sequence whose elements are tested with
  \<open>isinstance\<close>: a function left on its own, a group or a view group.
\<close>

datatype grouped =
    Ungrouped NativeFunction
  | Group NativeFunctionsGroup
  | ViewGroup NativeFunctionsViewGroup

subsection \<open>What the script prints\<close>

text \<open>
  \<open>tabulate\<close> is a third-party library: \<open>print(tabulate(table, headers=header))\<close> is
  kept as the header and the table it is given, a cell as the Python value put into it.
  Every other \<open>print\<close> is the line of text it writes. When \<open>tabulate\<close> could not be
  imported, the name is unbound and its first use raises \<open>NameError\<close>.
\<close>

datatype cell =
    Name OperatorName
  | Text string
  | Schema string
  | ReturnNames "string option list"

datatype printed = Table "string list" "cell list list" | Line string

datatype error = NameError string

fun is_table :: "printed \<Rightarrow> bool" where
  "is_table (Table header rows) = True"
| "is_table (Line text) = False"

subsection \<open>class Dialect\<close>

text \<open>The attribute \<open>_is_functional\<close> is the field \<open>is_functional_attr\<close>.\<close>

record Dialect =
  name :: string
  ops :: "(OperatorName \<times> NativeFunction) list"
  structured_native_functions :: "(OperatorName \<times> NativeFunctionsGroup) list"
  view_groups :: "(OperatorName \<times> NativeFunctionsViewGroup) list"
  is_functional_attr :: bool

text \<open>The body of the loop over \<open>native_functions\<close> (lines 27 to 29).\<close>

definition add_if_canonical ::
    "NativeFunction \<Rightarrow> (OperatorName \<times> NativeFunction) list
      \<Rightarrow> (OperatorName \<times> NativeFunction) list" where
  "add_if_canonical function = (\<lambda>ops.
     if ''canonical'' \<in> tags function
     then dict_set (FunctionSchema.name (NativeFunction.func function)) function ops
     else ops)"

text \<open>The body of the loop over \<open>self.ops.values()\<close> (lines 51 to 53).\<close>

definition clear_if_not_functional :: "NativeFunction \<Rightarrow> bool \<Rightarrow> bool" where
  "clear_if_not_functional op = (\<lambda>is_functional.
     if \<not> is_functional_fn (NativeFunction.func op) then False else is_functional)"

text \<open>
  \<open>parse_native_yaml\<close>, \<open>get_grouped_native_functions\<close> and
  \<open>get_grouped_by_view_native_functions\<close> of \<open>torchgen.gen\<close> are not among the source
  files: \<open>__init__\<close> takes the parsed \<open>native_functions\<close> and the two grouping
  functions as parameters. A dict comprehension inserts its items one by one.
\<close>

definition Dialect_init ::
    "string \<Rightarrow> NativeFunction list \<Rightarrow> (NativeFunction list \<Rightarrow> grouped list)
      \<Rightarrow> (NativeFunction list \<Rightarrow> grouped list) \<Rightarrow> Dialect" where
  "Dialect_init dialect_name native_functions get_grouped_native_functions
       get_grouped_by_view_native_functions =
     (let ops = fold add_if_canonical native_functions [];
          grouped_native_functions = get_grouped_native_functions native_functions;
          structured_native_functions = fold (\<lambda>g d.
                   case g of
                     Group g \<Rightarrow>
                       if FunctionSchema.name (NativeFunction.func (functional g))
                            \<in> set (dict_keys ops)
                       then dict_set (FunctionSchema.name (NativeFunction.func (functional g))) g d
                       else d
                   | _ \<Rightarrow> d)
                 grouped_native_functions [];
          native_functions_with_view_groups =
            get_grouped_by_view_native_functions native_functions;
          view_groups = fold (\<lambda>g d.
                   case g of
                     ViewGroup g \<Rightarrow>
                       if FunctionSchema.name (NativeFunction.func (view g)) \<in> set (dict_keys ops)
                       then dict_set (FunctionSchema.name (NativeFunction.func (view g))) g d
                       else d
                   | _ \<Rightarrow> d)
                 native_functions_with_view_groups [];
          is_functional = fold clear_if_not_functional (dict_values ops) True
      in \<lparr>name = dialect_name, ops = ops,
          structured_native_functions = structured_native_functions,
          view_groups = view_groups, is_functional_attr = is_functional\<rparr>)"

text \<open>The conditional expression \<open>f.func.name if f else 'N/A'\<close> of \<open>print_tabular\<close>.\<close>

definition name_or_NA :: "NativeFunction option \<Rightarrow> cell" where
  "name_or_NA f =
     (case f of
        Some f \<Rightarrow> Name (FunctionSchema.name (NativeFunction.func f))
      | None \<Rightarrow> Text ''N/A'')"

definition print_tabular :: "bool \<Rightarrow> Dialect \<Rightarrow> error + printed list" where
  "print_tabular tabulate_imported self =
     (let header = [''functional'', ''out'', ''inplace''];
          table = map (\<lambda>g. [Name (FunctionSchema.name (NativeFunction.func (functional g))),
                             name_or_NA (out g),
                             name_or_NA (inplace g)])
                    (dict_values (structured_native_functions self))
      in if \<not> tabulate_imported then Inl (NameError ''tabulate'')
         else
           let header' = [''view'', ''view_copy'', ''view_inplace''];
               table' = map (\<lambda>g. [Name (FunctionSchema.name (NativeFunction.func (view g))),
                                   name_or_NA (view_copy g),
                                   name_or_NA (view_inplace g)])
                          (dict_values (view_groups self))
           in Inr [Table header table, Line [], Table header' table'])"

text \<open>The row that \<open>print_schema\<close> appends for one op (lines 76 to 79).\<close>

definition schema_row :: "NativeFunction \<Rightarrow> cell list" where
  "schema_row op =
     (let aliased_return_names = ReturnNames (aliased_return_names (NativeFunction.func op));
          aliased_return_names =
            (if list_all (\<lambda>alised_name. alised_name = None)
                  (FunctionSchema.aliased_return_names (NativeFunction.func op))
             then Text ''N/A'' else aliased_return_names)
      in [Name (FunctionSchema.name (NativeFunction.func op)),
          Schema (signature (NativeFunction.func op)),
          aliased_return_names])"

definition print_schema :: "bool \<Rightarrow> Dialect \<Rightarrow> error + printed list" where
  "print_schema tabulate_imported self =
     (let header = [''op'', ''schema'', ''aliased_return_names''];
          table = fold (\<lambda>op table. table @ [schema_row op]) (dict_values (ops self)) []
      in if \<not> tabulate_imported then Inl (NameError ''tabulate'')
         else Inr [Table header table])"

definition is_functional :: "Dialect \<Rightarrow> bool" where
  "is_functional self = is_functional_attr self"

subsection \<open>The script\<close>

definition str_bool :: "bool \<Rightarrow> string" where
  "str_bool b = (if b then ''True'' else ''False'')"

text \<open>
  The module body: the import of \<open>tabulate\<close> (a message is printed when it fails), then
  \<open>d = Dialect("aten")\<close>, \<open>d.print_tabular()\<close>, \<open>d.print_schema()\<close> and
  \<open>print(d.is_functional)\<close>. The result is what was printed and the exception that
  ended the script, if any.
\<close>

definition aten_docgen ::
    "bool \<Rightarrow> NativeFunction list \<Rightarrow> (NativeFunction list \<Rightarrow> grouped list)
      \<Rightarrow> (NativeFunction list \<Rightarrow> grouped list) \<Rightarrow> printed list \<times> error option" where
  "aten_docgen tabulate_imported native_functions get_grouped_native_functions
       get_grouped_by_view_native_functions =
     (let stdout = (if tabulate_imported then []
            else [Line (''`print_tabular` relies on the library `tabulate`, ''
                        @ ''which could not be found on this machine. Run `pip ''
                        @ ''install tabulate` to install the library.'')]);
          d = Dialect_init ''aten'' native_functions get_grouped_native_functions
                get_grouped_by_view_native_functions
      in case print_tabular tabulate_imported d of
           Inl e \<Rightarrow> (stdout, Some e)
         | Inr tabular \<Rightarrow>
             (case print_schema tabulate_imported d of
                Inl e \<Rightarrow> (stdout @ tabular, Some e)
              | Inr schema \<Rightarrow>
                  (stdout @ tabular @ schema @ [Line (str_bool (is_functional d))], None)))"

subsection \<open>Sample operator metadata\<close>

text \<open>
  Records in the shape of the entries for \<open>add\<close> and \<open>relu_\<close>, and grouping
  functions that return the group of \<open>add\<close> and no group; the concrete inputs at which
  the theorems below are instantiated. \<open>add_Tensor_untagged\<close> and
  \<open>add_Tensor_again\<close> are second entries under the name of \<open>add_Tensor\<close>, with
  other arguments: the first without the tag, the second tagged and with
  \<open>is_functional_fn()\<close> True. \<open>batch_norm_functional\<close> has the shape of an entry
  whose \<open>is_functional_fn()\<close> is True.
\<close>

definition add_Tensor :: NativeFunction where
  "add_Tensor =
     \<lparr>func = \<lparr>FunctionSchema.name = ''add.Tensor'',
              signature = ''add(Tensor self, Tensor other, *, Scalar alpha=1) -> Tensor'',
              aliased_return_names = [None],
              is_functional_fn = False\<rparr>,
      tags = {''canonical'', ''pointwise''}\<rparr>"

definition add_Tensor_untagged :: NativeFunction where
  "add_Tensor_untagged =
     \<lparr>func = \<lparr>FunctionSchema.name = ''add.Tensor'',
              signature = ''add(Tensor self, Scalar other, *, Scalar alpha=1) -> Tensor'',
              aliased_return_names = [None],
              is_functional_fn = False\<rparr>,
      tags = {''pointwise''}\<rparr>"

definition add_Tensor_again :: NativeFunction where
  "add_Tensor_again =
     \<lparr>func = \<lparr>FunctionSchema.name = ''add.Tensor'',
              signature = ''add(Tensor self, Scalar other, *, Scalar alpha=1) -> Tensor'',
              aliased_return_names = [None],
              is_functional_fn = True\<rparr>,
      tags = {''canonical''}\<rparr>"

definition batch_norm_functional :: NativeFunction where
  "batch_norm_functional =
     \<lparr>func = \<lparr>FunctionSchema.name = ''_native_batch_norm_legit_functional'',
              signature = ''_native_batch_norm_legit(Tensor input) -> (Tensor, Tensor)'',
              aliased_return_names = [None, None],
              is_functional_fn = True\<rparr>,
      tags = {''canonical''}\<rparr>"

definition add__Tensor :: NativeFunction where
  "add__Tensor =
     \<lparr>func = \<lparr>FunctionSchema.name = ''add_.Tensor'',
              signature = ''add(Tensor self, Tensor other, *, Scalar alpha=1) -> Tensor'',
              aliased_return_names = [Some ''self''],
              is_functional_fn = False\<rparr>,
      tags = {''pointwise''}\<rparr>"

definition add_out :: NativeFunction where
  "add_out =
     \<lparr>func = \<lparr>FunctionSchema.name = ''add.out'',
              signature = ''add(Tensor self, Tensor other, *, Scalar alpha=1) -> Tensor'',
              aliased_return_names = [Some ''out''],
              is_functional_fn = False\<rparr>,
      tags = {''pointwise''}\<rparr>"

definition relu_inplace :: NativeFunction where
  "relu_inplace =
     \<lparr>func = \<lparr>FunctionSchema.name = ''relu_'',
              signature = ''relu(Tensor self) -> Tensor'',
              aliased_return_names = [Some ''self''],
              is_functional_fn = False\<rparr>,
      tags = {''canonical''}\<rparr>"

definition add_groups :: "NativeFunction list \<Rightarrow> grouped list" where
  "add_groups native_functions =
     [Group \<lparr>functional = add_Tensor, inplace = Some add__Tensor, out = Some add_out\<rparr>]"

definition no_groups :: "NativeFunction list \<Rightarrow> grouped list" where
  "no_groups native_functions = []"


section \<open>Properties of the executorch backend config\<close>

text \<open>
  C10. The weight constraint \<open>executorch_weight_qint8_neg_127_to_127_scale_min_2_neg_12\<close>
  is the qint8 dtype with quant_min_lower_bound -127, quant_max_upper_bound 127 (so -128
  is outside the range) and scale_min_lower_bound exactly 2^-12 = 1/4096; both symmetric
  DTypeConfigs take the qint8 dtype constrained to a scale of at least 2^-12 as their
  input dtype and as their output dtype.
\<close>

theorem executorch_xnnpack_constraints:
  "dtype executorch_weight_qint8_neg_127_to_127_scale_min_2_neg_12 = Some torch_qint8
   \<and> quant_min_lower_bound executorch_weight_qint8_neg_127_to_127_scale_min_2_neg_12 = Some (- 127)
   \<and> quant_max_upper_bound executorch_weight_qint8_neg_127_to_127_scale_min_2_neg_12 = Some 127
   \<and> scale_min_lower_bound executorch_weight_qint8_neg_127_to_127_scale_min_2_neg_12
       = Some (1 / 2 ^ 12)
   \<and> dtype executorch_act_qint8_scale_min_2_neg_12 = Some torch_qint8
   \<and> scale_min_lower_bound executorch_act_qint8_scale_min_2_neg_12 = Some (1 / 2 ^ 12)
   \<and> input_dtype executorch_weighted_op_qint8_symmetric_dtype_config
       = Some (Constrained executorch_act_qint8_scale_min_2_neg_12)
   \<and> output_dtype executorch_weighted_op_qint8_symmetric_dtype_config
       = Some (Constrained executorch_act_qint8_scale_min_2_neg_12)
   \<and> input_dtype executorch_default_op_qint8_symmetric_dtype_config
       = Some (Constrained executorch_act_qint8_scale_min_2_neg_12)
   \<and> output_dtype executorch_default_op_qint8_symmetric_dtype_config
       = Some (Constrained executorch_act_qint8_scale_min_2_neg_12)"
  by (simp add: executorch_weight_qint8_neg_127_to_127_scale_min_2_neg_12_def
      executorch_act_qint8_scale_min_2_neg_12_def
      executorch_weighted_op_qint8_symmetric_dtype_config_def
      executorch_default_op_qint8_symmetric_dtype_config_def power_int_minus)


subsection \<open>The table of pattern configs\<close>

lemmas setter_defs = chain_def set_observation_type_def set_dtype_configs_def
  set_root_module_def set_reference_quantized_module_def set_qat_module_def
  set_input_type_to_index_def set_fuser_method_def set_fused_module_def
  set_num_tensor_args_to_observation_type_def BackendPatternConfig_init_def Let_def

lemma dict_set_fresh:
  "k \<notin> fst ` set d \<Longrightarrow> dict_set k v d = d @ [(k, v)]"
  by (induction d) auto

lemma dict_set_items:
  "(k', v') \<in> set (dict_set k v d) \<Longrightarrow> (k', v') = (k, v) \<or> (k', v') \<in> set d"
  by (induction d) (auto split: if_splits)

lemma set_backend_pattern_configs_append:
  "set_backend_pattern_configs (xs @ ys) self
     = set_backend_pattern_configs ys (set_backend_pattern_configs xs self)"
  by (simp add: set_backend_pattern_configs_def)

lemma set_backend_pattern_configs_name:
  "BackendConfig.name (set_backend_pattern_configs cs self) = BackendConfig.name self"
  by (induction cs arbitrary: self)
     (simp_all add: set_backend_pattern_configs_def set_backend_pattern_config_def)

text \<open>Configs with pairwise distinct, new patterns are added at the end, in order.\<close>

lemma set_backend_pattern_configs_distinct:
  "distinct (map pattern cs) \<Longrightarrow> set (map pattern cs) \<inter> fst ` set (configs self) = {}
   \<Longrightarrow> configs (set_backend_pattern_configs cs self)
       = configs self @ map (\<lambda>c. (pattern c, c)) cs"
proof (induction cs arbitrary: self)
  case Nil
  then show ?case by (simp add: set_backend_pattern_configs_def)
next
  case (Cons c cs)
  let ?s = "set_backend_pattern_config c self"
  have fresh: "pattern c \<notin> fst ` set (configs self)"
    using Cons.prems(2) by auto
  have step: "configs ?s = configs self @ [(pattern c, c)]"
    by (simp add: set_backend_pattern_config_def dict_set_fresh [OF fresh])
  have "set (map pattern cs) \<inter> fst ` set (configs ?s) = {}"
    using Cons.prems by (auto simp: step)
  with Cons.IH [of ?s] Cons.prems(1)
  have "configs (set_backend_pattern_configs cs ?s)
          = configs ?s @ map (\<lambda>c. (pattern c, c)) cs"
    by simp
  then show ?case by (simp add: step set_backend_pattern_configs_def)
qed

text \<open>Whatever the patterns, every item of the table was set or was there before.\<close>

lemma set_backend_pattern_configs_items:
  "(p, c) \<in> set (configs (set_backend_pattern_configs cs self))
   \<Longrightarrow> (c \<in> set cs \<and> p = pattern c) \<or> (p, c) \<in> set (configs self)"
proof (induction cs arbitrary: self)
  case Nil
  then show ?case by (simp add: set_backend_pattern_configs_def)
next
  case (Cons a cs)
  from Cons.prems
  have "(p, c) \<in> set (configs (set_backend_pattern_configs cs (set_backend_pattern_config a self)))"
    by (simp add: set_backend_pattern_configs_def)
  from Cons.IH [OF this] show ?case
    by (auto simp: set_backend_pattern_config_def dest: dict_set_items)
qed

lemma get_executorch_backend_config_fold:
  "get_executorch_backend_config M =
     set_backend_pattern_configs
       (get_linear_configs @ get_conv_configs M @ get_binary_ops_configs
        @ get_share_qparams_ops_configs @ get_bn_configs @ get_cat_configs)
       (BackendConfig_init ''executorch'')"
  by (simp add: get_executorch_backend_config_def chain_def set_backend_pattern_configs_append)

lemma linear_dtype_configs:
  "c \<in> set get_linear_configs \<Longrightarrow>
     dtype_configs c = [executorch_weighted_op_qint8_symmetric_dtype_config,
       executorch_weighted_op_int8_dtype_config,
       executorch_default_dynamic_int8_dtype_config,
       executorch_default_dynamic_float16_dtype_config]"
  by (auto simp: get_linear_configs_def setter_defs)

lemma conv_dtype_configs:
  "c \<in> set (get_conv_configs M) \<Longrightarrow>
     dtype_configs c = [executorch_weighted_op_qint8_symmetric_dtype_config,
       executorch_weighted_op_int8_dtype_config]"
  by (auto simp: get_conv_configs_def setter_defs)

lemma binary_dtype_configs:
  "c \<in> set get_binary_ops_configs \<Longrightarrow>
     dtype_configs c = [executorch_default_op_qint8_symmetric_dtype_config,
       executorch_weighted_op_int8_dtype_config]"
  by (auto simp: get_binary_ops_configs_def setter_defs)

lemma share_qparams_dtype_configs:
  "c \<in> set get_share_qparams_ops_configs \<Longrightarrow>
     dtype_configs c = [executorch_default_op_qint8_symmetric_dtype_config,
       executorch_default_op_quint8_dtype_config]"
  by (auto simp: get_share_qparams_ops_configs_def setter_defs)

lemma bn_dtype_configs:
  "c \<in> set get_bn_configs \<Longrightarrow>
     dtype_configs c = [executorch_default_op_qint8_symmetric_dtype_config,
       executorch_default_op_quint8_dtype_config]"
  by (auto simp: get_bn_configs_def setter_defs)

lemma cat_dtype_configs:
  "c \<in> set get_cat_configs \<Longrightarrow>
     dtype_configs c = [executorch_default_op_qint8_symmetric_dtype_config,
       executorch_default_op_quint8_dtype_config]"
  by (auto simp: get_cat_configs_def setter_defs)

lemmas group_dtype_configs = linear_dtype_configs conv_dtype_configs binary_dtype_configs
  share_qparams_dtype_configs bn_dtype_configs cat_dtype_configs

lemma group_configs_dtype_rules:
  assumes "c \<in> set (get_linear_configs @ get_conv_configs M @ get_binary_ops_configs
        @ get_share_qparams_ops_configs @ get_bn_configs @ get_cat_configs)"
  shows "dtype_configs c \<noteq> [] \<and>
     set (dtype_configs c) \<subseteq>
       {executorch_weighted_op_int8_dtype_config,
        executorch_default_op_quint8_dtype_config,
        executorch_default_dynamic_int8_dtype_config,
        executorch_default_dynamic_float16_dtype_config,
        executorch_weighted_op_qint8_symmetric_dtype_config,
        executorch_default_op_qint8_symmetric_dtype_config}"
  using assms by (auto dest!: group_dtype_configs)

lemma conv2d_patterns:
  "map pattern
     (get_linear_configs @ get_conv_configs conv2d @ get_binary_ops_configs
        @ get_share_qparams_ops_configs @ get_bn_configs @ get_cat_configs)
   = [Callable ''torch.nn.Linear'',
      Callable ''torch.nn.functional.linear'',
      Callable ''torch.nn.Conv2d'',
      Callable ''torch.nn.functional.conv2d'',
      Tuple (Callable ''torch.nn.ReLU'') (Callable ''torch.nn.Conv2d''),
      Tuple (Callable ''torch.nn.functional.relu'') (Callable ''torch.nn.Conv2d''),
      Callable ''torch.nn.intrinsic.ConvReLU2d'',
      Tuple (Callable ''torch.nn.ReLU'') (Callable ''torch.nn.functional.conv2d''),
      Tuple (Callable ''torch.nn.functional.relu'') (Callable ''torch.nn.functional.conv2d''),
      Callable ''operator.add'',
      Callable ''torch.add'',
      Callable ''torch.nn.functional.adaptive_avg_pool2d'',
      Callable ''torch.nn.functional.relu'',
      Callable ''torch.nn.functional.relu6'',
      Callable ''torch.nn.AdaptiveAvgPool2d'',
      Callable ''torch.squeeze'',
      Method ''permute'',
      Method ''reshape'',
      Method ''relu'',
      Method ''relu_'',
      Method ''squeeze'',
      Method ''squeeze_'',
      Callable ''torch.nn.BatchNorm2d'',
      Callable ''torch.cat'']"
  by (simp add: get_linear_configs_def get_conv_configs_def get_binary_ops_configs_def
      get_share_qparams_ops_configs_def get_bn_configs_def get_cat_configs_def conv2d_def
      setter_defs)

lemma conv2d_patterns_distinct:
  "distinct (map pattern
     (get_linear_configs @ get_conv_configs conv2d @ get_binary_ops_configs
        @ get_share_qparams_ops_configs @ get_bn_configs @ get_cat_configs))"
  unfolding conv2d_patterns by simp

lemma conv2d_configs:
  "configs (get_executorch_backend_config conv2d)
     = map (\<lambda>c. (pattern c, c))
         (get_linear_configs @ get_conv_configs conv2d @ get_binary_ops_configs
          @ get_share_qparams_ops_configs @ get_bn_configs @ get_cat_configs)"
  unfolding get_executorch_backend_config_fold
  using set_backend_pattern_configs_distinct
          [OF conv2d_patterns_distinct, of "BackendConfig_init ''executorch''"]
  by (simp add: BackendConfig_init_def)

text \<open>
  C1. \<open>get_executorch_backend_config\<close> returns a BackendConfig named "executorch"
  built by six calls of \<open>set_backend_pattern_configs\<close>. When the operator patterns of
  the six groups are pairwise distinct (they depend on \<open>_Conv2dMetadata\<close>), its table
  holds exactly the pattern configs that \<open>_get_linear_configs\<close>,
  \<open>_get_conv_configs\<close>, \<open>_get_binary_ops_configs\<close>,
  \<open>_get_share_qparams_ops_configs\<close>, \<open>_get_bn_configs\<close> and \<open>_get_cat_configs\<close>
  produce, in that order, each under its own operator pattern and each with dtype_configs
  declared (a non-empty list).
\<close>

theorem get_executorch_backend_config_groups:
  assumes "distinct (map pattern
     (get_linear_configs @ get_conv_configs Conv2dMetadata @ get_binary_ops_configs
        @ get_share_qparams_ops_configs @ get_bn_configs @ get_cat_configs))"
  shows "BackendConfig.name (get_executorch_backend_config Conv2dMetadata) = ''executorch''
    \<and> dict_values (configs (get_executorch_backend_config Conv2dMetadata))
        = get_linear_configs @ get_conv_configs Conv2dMetadata @ get_binary_ops_configs
          @ get_share_qparams_ops_configs @ get_bn_configs @ get_cat_configs
    \<and> dict_keys (configs (get_executorch_backend_config Conv2dMetadata))
        = map pattern (dict_values (configs (get_executorch_backend_config Conv2dMetadata)))
    \<and> (\<forall>c \<in> set (dict_values (configs (get_executorch_backend_config Conv2dMetadata))).
          dtype_configs c \<noteq> [])"
proof -
  let ?all = "get_linear_configs @ get_conv_configs Conv2dMetadata @ get_binary_ops_configs
        @ get_share_qparams_ops_configs @ get_bn_configs @ get_cat_configs"
  have "configs (get_executorch_backend_config Conv2dMetadata)
          = map (\<lambda>c. (pattern c, c)) ?all"
    unfolding get_executorch_backend_config_fold
    using set_backend_pattern_configs_distinct [OF assms, of "BackendConfig_init ''executorch''"]
    by (simp add: BackendConfig_init_def)
  moreover have "\<forall>c \<in> set ?all. dtype_configs c \<noteq> []"
    using group_configs_dtype_rules by blast
  ultimately show ?thesis
    by (simp add: dict_values_def dict_keys_def comp_def get_executorch_backend_config_fold
        set_backend_pattern_configs_name BackendConfig_init_def)
qed

theorem get_executorch_backend_config_groups_witness:
  "distinct (map pattern
     (get_linear_configs @ get_conv_configs conv2d @ get_binary_ops_configs
        @ get_share_qparams_ops_configs @ get_bn_configs @ get_cat_configs))
   \<and> BackendConfig.name (get_executorch_backend_config conv2d) = ''executorch''
   \<and> dict_values (configs (get_executorch_backend_config conv2d))
        = get_linear_configs @ get_conv_configs conv2d @ get_binary_ops_configs
          @ get_share_qparams_ops_configs @ get_bn_configs @ get_cat_configs
   \<and> length (dict_keys (configs (get_executorch_backend_config conv2d))) = 24"
proof -
  note r = get_executorch_backend_config_groups [OF conv2d_patterns_distinct]
  have "length (dict_keys (configs (get_executorch_backend_config conv2d)))
          = length (map pattern
              (get_linear_configs @ get_conv_configs conv2d @ get_binary_ops_configs
               @ get_share_qparams_ops_configs @ get_bn_configs @ get_cat_configs))"
    using r by simp
  also have "\<dots> = 24"
    unfolding conv2d_patterns by simp
  finally show ?thesis
    using r conv2d_patterns_distinct by simp
qed

text \<open>
  C9. Every BackendPatternConfig in the table of the BackendConfig that
  \<open>get_executorch_backend_config\<close> returns has a non-empty dtype_configs list, and
  every element of that list is one of the six executorch DTypeConfig constants of the
  module.
\<close>

theorem executorch_dtype_configs_from_constants:
  "\<forall>c \<in> set (dict_values (configs (get_executorch_backend_config Conv2dMetadata))).
     dtype_configs c \<noteq> [] \<and>
     set (dtype_configs c) \<subseteq>
       {executorch_weighted_op_int8_dtype_config,
        executorch_default_op_quint8_dtype_config,
        executorch_default_dynamic_int8_dtype_config,
        executorch_default_dynamic_float16_dtype_config,
        executorch_weighted_op_qint8_symmetric_dtype_config,
        executorch_default_op_qint8_symmetric_dtype_config}"
proof
  fix c
  assume "c \<in> set (dict_values (configs (get_executorch_backend_config Conv2dMetadata)))"
  then obtain p where "(p, c) \<in> set (configs (get_executorch_backend_config Conv2dMetadata))"
    by (auto simp: dict_values_def)
  then have "c \<in> set (get_linear_configs @ get_conv_configs Conv2dMetadata
        @ get_binary_ops_configs @ get_share_qparams_ops_configs @ get_bn_configs
        @ get_cat_configs)"
    unfolding get_executorch_backend_config_fold
    by (auto dest!: set_backend_pattern_configs_items simp: BackendConfig_init_def)
  then show "dtype_configs c \<noteq> [] \<and>
     set (dtype_configs c) \<subseteq>
       {executorch_weighted_op_int8_dtype_config,
        executorch_default_op_quint8_dtype_config,
        executorch_default_dynamic_int8_dtype_config,
        executorch_default_dynamic_float16_dtype_config,
        executorch_weighted_op_qint8_symmetric_dtype_config,
        executorch_default_op_qint8_symmetric_dtype_config}"
    by (rule group_configs_dtype_rules)
qed

theorem executorch_dtype_configs_from_constants_witness:
  "length (dict_values (configs (get_executorch_backend_config conv2d))) = 24
   \<and> dtype_configs (dict_values (configs (get_executorch_backend_config conv2d)) ! 23)
        = [executorch_default_op_qint8_symmetric_dtype_config,
           executorch_default_op_quint8_dtype_config]
   \<and> dtype_configs (dict_values (configs (get_executorch_backend_config conv2d)) ! 23) \<noteq> []
   \<and> set (dtype_configs (dict_values (configs (get_executorch_backend_config conv2d)) ! 23))
        \<subseteq> {executorch_weighted_op_int8_dtype_config,
            executorch_default_op_quint8_dtype_config,
            executorch_default_dynamic_int8_dtype_config,
            executorch_default_dynamic_float16_dtype_config,
            executorch_weighted_op_qint8_symmetric_dtype_config,
            executorch_default_op_qint8_symmetric_dtype_config}"
proof -
  let ?vs = "dict_values (configs (get_executorch_backend_config conv2d))"
  have len: "length ?vs = 24"
    using arg_cong [OF conv2d_patterns, of length]
    by (simp add: conv2d_configs dict_values_def)
  have last: "?vs ! 23 = chain (BackendPatternConfig_init (Callable ''torch.cat''))
              [set_observation_type OUTPUT_SHARE_OBSERVER_WITH_INPUT,
               set_dtype_configs [executorch_default_op_qint8_symmetric_dtype_config,
                 executorch_default_op_quint8_dtype_config]]"
    by (simp add: conv2d_configs dict_values_def comp_def get_linear_configs_def
        get_conv_configs_def get_binary_ops_configs_def get_share_qparams_ops_configs_def
        get_bn_configs_def get_cat_configs_def Let_def nth_append)
  have mem: "?vs ! 23 \<in> set ?vs"
    using len by (intro nth_mem) simp
  from executorch_dtype_configs_from_constants [rule_format, OF mem] len last
  show ?thesis by (simp add: setter_defs)
qed


section \<open>The object store refines the values\<close>

lemma fold_call_setter_last:
  "fold (\<lambda>call (self, s). call_setter call self s) calls
      (length xs, s\<lparr>pattern_config_objects := xs @ [v]\<rparr>)
   = (length xs, s\<lparr>pattern_config_objects := xs @ [fold (\<lambda>call self. call self) calls v]\<rparr>)"
  by (induction calls arbitrary: v) (simp_all add: call_setter_def)

text \<open>A chain of setters on a new object leaves one more object: the value of the chain.\<close>

lemma new_chain_value:
  "new_chain p calls s =
     (length (pattern_config_objects s),
      s\<lparr>pattern_config_objects :=
          pattern_config_objects s @ [chain (BackendPatternConfig_init p) calls]\<rparr>)"
  by (simp add: new_chain_def BackendPatternConfig_new_def chain_def fold_call_setter_last)

text \<open>
  Each group builder allocates the values of its group, in order, at the next free
  addresses, and changes no object that was there.
\<close>

lemma get_linear_configs_obj_value:
  "get_linear_configs_obj s =
     ([length (pattern_config_objects s) ..<
         length (pattern_config_objects s) + length get_linear_configs],
      s\<lparr>pattern_config_objects := pattern_config_objects s @ get_linear_configs\<rparr>)"
  by (simp add: get_linear_configs_obj_def get_linear_configs_def new_chain_value Let_def
      upt_rec)

lemma get_conv_configs_obj_value:
  "get_conv_configs_obj M s =
     ([length (pattern_config_objects s) ..<
         length (pattern_config_objects s) + length (get_conv_configs M)],
      s\<lparr>pattern_config_objects := pattern_config_objects s @ get_conv_configs M\<rparr>)"
  by (simp add: get_conv_configs_obj_def get_conv_configs_def new_chain_value Let_def
      upt_rec)

lemma get_binary_ops_configs_obj_value:
  "get_binary_ops_configs_obj s =
     ([length (pattern_config_objects s) ..<
         length (pattern_config_objects s) + length get_binary_ops_configs],
      s\<lparr>pattern_config_objects := pattern_config_objects s @ get_binary_ops_configs\<rparr>)"
  by (simp add: get_binary_ops_configs_obj_def get_binary_ops_configs_def new_chain_value
      Let_def upt_rec)

lemma get_share_qparams_ops_configs_obj_value:
  "get_share_qparams_ops_configs_obj s =
     ([length (pattern_config_objects s) ..<
         length (pattern_config_objects s) + length get_share_qparams_ops_configs],
      s\<lparr>pattern_config_objects := pattern_config_objects s @ get_share_qparams_ops_configs\<rparr>)"
  by (simp add: get_share_qparams_ops_configs_obj_def get_share_qparams_ops_configs_def
      new_chain_value Let_def upt_rec)

lemma get_bn_configs_obj_value:
  "get_bn_configs_obj s =
     ([length (pattern_config_objects s) ..<
         length (pattern_config_objects s) + length get_bn_configs],
      s\<lparr>pattern_config_objects := pattern_config_objects s @ get_bn_configs\<rparr>)"
  by (simp add: get_bn_configs_obj_def get_bn_configs_def new_chain_value Let_def upt_rec)

lemma get_cat_configs_obj_value:
  "get_cat_configs_obj s =
     ([length (pattern_config_objects s) ..<
         length (pattern_config_objects s) + length get_cat_configs],
      s\<lparr>pattern_config_objects := pattern_config_objects s @ get_cat_configs\<rparr>)"
  by (simp add: get_cat_configs_obj_def get_cat_configs_def new_chain_value Let_def upt_rec)

lemma set_backend_pattern_configs_obj_value:
  "set_backend_pattern_configs_obj confs (length bs)
      \<lparr>pattern_config_objects = ps, backend_config_objects = bs @ [b]\<rparr>
   = (length bs,
      \<lparr>pattern_config_objects = ps,
       backend_config_objects = bs @ [b\<lparr>object_configs :=
          fold (\<lambda>conf. dict_set (pattern (ps ! conf)) conf) confs (object_configs b)\<rparr>]\<rparr>)"
proof -
  have "fold (\<lambda>conf (self, s). set_backend_pattern_config_obj conf self s) confs
          (length bs, \<lparr>pattern_config_objects = ps, backend_config_objects = bs @ [b]\<rparr>)
        = (length bs,
           \<lparr>pattern_config_objects = ps,
            backend_config_objects = bs @ [b\<lparr>object_configs :=
              fold (\<lambda>conf. dict_set (pattern (ps ! conf)) conf) confs (object_configs b)\<rparr>]\<rparr>)"
    by (induction confs arbitrary: b) (simp_all add: set_backend_pattern_config_obj_def)
  then show ?thesis by (simp add: set_backend_pattern_configs_obj_def)
qed

lemma set_backend_pattern_configs_fold:
  "set_backend_pattern_configs cs v
     = v\<lparr>configs := fold (\<lambda>c. dict_set (pattern c) c) cs (configs v)\<rparr>"
  by (induction cs arbitrary: v)
     (simp_all add: set_backend_pattern_configs_def set_backend_pattern_config_def)

lemma map_dict_set:
  "map (\<lambda>(p, a). (p, f a)) (dict_set k a0 d) = dict_set k (f a0) (map (\<lambda>(p, a). (p, f a)) d)"
  by (induction k a0 d rule: dict_set.induct) simp_all

lemma map_fold_dict_set:
  "map (\<lambda>(p, a). (p, f a)) (fold (\<lambda>conf. dict_set (pattern (f conf)) conf) confs d)
     = fold (\<lambda>c. dict_set (pattern c) c) (map f confs) (map (\<lambda>(p, a). (p, f a)) d)"
  by (induction confs arbitrary: d) (simp_all add: map_dict_set)

lemma fold_dict_set_refs:
  "snd ` set (fold (\<lambda>conf. dict_set (k conf) conf) confs d) \<subseteq> snd ` set d \<union> set confs"
proof (induction confs arbitrary: d)
  case Nil
  then show ?case by simp
next
  case (Cons c confs)
  have "snd ` set (dict_set (k c) c d) \<subseteq> insert c (snd ` set d)"
    by (auto dest: dict_set_items)
  with Cons.IH [of "dict_set (k c) c d"] show ?case by auto
qed

lemma map_nth_new:
  "map ((!) (ps @ vals)) [length ps..<length ps + length vals] = vals"
  by (rule nth_equalityI) (simp_all add: nth_append)

text \<open>
  Setting the references of a newly allocated group is setting its values: the table of
  references goes on representing the table of values.
\<close>

lemma represents_group:
  assumes "represents ps b v"
  shows "represents (ps @ vals)
           (b\<lparr>object_configs :=
               fold (\<lambda>conf. dict_set (pattern ((ps @ vals) ! conf)) conf)
                 [length ps..<length ps + length vals] (object_configs b)\<rparr>)
           (set_backend_pattern_configs vals v)"
proof -
  let ?t = "fold (\<lambda>conf. dict_set (pattern ((ps @ vals) ! conf)) conf)
              [length ps..<length ps + length vals] (object_configs b)"
  from assms have rng: "\<forall>(p, a) \<in> set (object_configs b). a < length ps"
    and v: "v = \<lparr>BackendConfig.name = object_name b,
                 configs = map (\<lambda>(p, a). (p, ps ! a)) (object_configs b)\<rparr>"
    by (simp_all add: represents_def list_all_iff)
  have old: "map (\<lambda>(p, a). (p, (ps @ vals) ! a)) (object_configs b)
               = map (\<lambda>(p, a). (p, ps ! a)) (object_configs b)"
    using rng by (auto simp: nth_append)
  have "snd ` set ?t \<subseteq> snd ` set (object_configs b)
          \<union> set [length ps..<length ps + length vals]"
    by (rule fold_dict_set_refs)
  then have rng': "\<forall>(p, a) \<in> set ?t. a < length (ps @ vals)"
    using rng by fastforce
  have "map (\<lambda>(p, a). (p, (ps @ vals) ! a)) ?t
          = fold (\<lambda>c. dict_set (pattern c) c) vals
              (map (\<lambda>(p, a). (p, ps ! a)) (object_configs b))"
    by (simp add: map_fold_dict_set [where f = "(!) (ps @ vals)"] map_nth_new old)
  with rng' show ?thesis
    by (simp add: represents_def list_all_iff set_backend_pattern_configs_fold v)
qed

lemma represents_append:
  "represents ps b v \<Longrightarrow> represents (ps @ extra) b v"
  by (auto simp: represents_def list_all_iff nth_append)

lemma call_with_group:
  assumes "\<And>s. builder s =
     ([length (pattern_config_objects s) ..< length (pattern_config_objects s) + length vals],
      s\<lparr>pattern_config_objects := pattern_config_objects s @ vals\<rparr>)"
    and "represents ps b v"
  shows "\<exists>b'. call_with builder set_backend_pattern_configs_obj (length bs)
                 \<lparr>pattern_config_objects = ps, backend_config_objects = bs @ [b]\<rparr>
               = (length bs,
                  \<lparr>pattern_config_objects = ps @ vals, backend_config_objects = bs @ [b']\<rparr>)
             \<and> represents (ps @ vals) b' (set_backend_pattern_configs vals v)"
  using represents_group [OF assms(2), of vals]
  by (simp add: call_with_def assms(1) set_backend_pattern_configs_obj_value)

text \<open>
  One call of \<open>get_executorch_backend_config\<close> on any store: the objects that were
  there are all unchanged, the pattern configs and one BackendConfig are new, and the new
  BackendConfig, which is returned, has the value that the function denotes.
\<close>

lemma get_executorch_backend_config_obj_groups:
  "\<exists>b. get_executorch_backend_config_obj M s
       = (length (backend_config_objects s),
          \<lparr>pattern_config_objects = pattern_config_objects s
             @ (get_linear_configs @ get_conv_configs M @ get_binary_ops_configs
                @ get_share_qparams_ops_configs @ get_bn_configs @ get_cat_configs),
           backend_config_objects = backend_config_objects s @ [b]\<rparr>)
     \<and> represents
          (pattern_config_objects s
             @ (get_linear_configs @ get_conv_configs M @ get_binary_ops_configs
                @ get_share_qparams_ops_configs @ get_bn_configs @ get_cat_configs))
          b (get_executorch_backend_config M)"
proof -
  obtain ps0 bs0 where s: "s = \<lparr>pattern_config_objects = ps0, backend_config_objects = bs0\<rparr>"
    by (cases s) simp
  let ?v0 = "BackendConfig_init ''executorch''"
  let ?v1 = "set_backend_pattern_configs get_linear_configs ?v0"
  let ?v2 = "set_backend_pattern_configs (get_conv_configs M) ?v1"
  let ?v3 = "set_backend_pattern_configs get_binary_ops_configs ?v2"
  let ?v4 = "set_backend_pattern_configs get_share_qparams_ops_configs ?v3"
  let ?v5 = "set_backend_pattern_configs get_bn_configs ?v4"
  let ?v6 = "set_backend_pattern_configs get_cat_configs ?v5"
  let ?call = "\<lambda>builder. call_with builder set_backend_pattern_configs_obj (length bs0)"
  have r0: "represents ps0 \<lparr>object_name = ''executorch'', object_configs = []\<rparr> ?v0"
    by (simp add: represents_def BackendConfig_init_def)
  from call_with_group [OF get_linear_configs_obj_value r0, of bs0]
  obtain b1 where c1: "?call get_linear_configs_obj
        \<lparr>pattern_config_objects = ps0,
         backend_config_objects = bs0 @ [\<lparr>object_name = ''executorch'', object_configs = []\<rparr>]\<rparr>
      = (length bs0, \<lparr>pattern_config_objects = ps0 @ get_linear_configs,
                      backend_config_objects = bs0 @ [b1]\<rparr>)"
    and r1: "represents (ps0 @ get_linear_configs) b1 ?v1"
    by blast
  from call_with_group [OF get_conv_configs_obj_value r1, of M bs0]
  obtain b2 where c2: "?call (get_conv_configs_obj M)
        \<lparr>pattern_config_objects = ps0 @ get_linear_configs,
         backend_config_objects = bs0 @ [b1]\<rparr>
      = (length bs0, \<lparr>pattern_config_objects = (ps0 @ get_linear_configs) @ get_conv_configs M,
                      backend_config_objects = bs0 @ [b2]\<rparr>)"
    and r2: "represents ((ps0 @ get_linear_configs) @ get_conv_configs M) b2 ?v2"
    by blast
  from call_with_group [OF get_binary_ops_configs_obj_value r2, of bs0]
  obtain b3 where c3: "?call get_binary_ops_configs_obj
        \<lparr>pattern_config_objects = (ps0 @ get_linear_configs) @ get_conv_configs M,
         backend_config_objects = bs0 @ [b2]\<rparr>
      = (length bs0,
         \<lparr>pattern_config_objects =
            ((ps0 @ get_linear_configs) @ get_conv_configs M) @ get_binary_ops_configs,
          backend_config_objects = bs0 @ [b3]\<rparr>)"
    and r3: "represents
        (((ps0 @ get_linear_configs) @ get_conv_configs M) @ get_binary_ops_configs) b3 ?v3"
    by blast
  from call_with_group [OF get_share_qparams_ops_configs_obj_value r3, of bs0]
  obtain b4 where c4: "?call get_share_qparams_ops_configs_obj
        \<lparr>pattern_config_objects =
           ((ps0 @ get_linear_configs) @ get_conv_configs M) @ get_binary_ops_configs,
         backend_config_objects = bs0 @ [b3]\<rparr>
      = (length bs0,
         \<lparr>pattern_config_objects =
            (((ps0 @ get_linear_configs) @ get_conv_configs M) @ get_binary_ops_configs)
              @ get_share_qparams_ops_configs,
          backend_config_objects = bs0 @ [b4]\<rparr>)"
    and r4: "represents
        ((((ps0 @ get_linear_configs) @ get_conv_configs M) @ get_binary_ops_configs)
           @ get_share_qparams_ops_configs) b4 ?v4"
    by blast
  from call_with_group [OF get_bn_configs_obj_value r4, of bs0]
  obtain b5 where c5: "?call get_bn_configs_obj
        \<lparr>pattern_config_objects =
           (((ps0 @ get_linear_configs) @ get_conv_configs M) @ get_binary_ops_configs)
              @ get_share_qparams_ops_configs,
         backend_config_objects = bs0 @ [b4]\<rparr>
      = (length bs0,
         \<lparr>pattern_config_objects =
            ((((ps0 @ get_linear_configs) @ get_conv_configs M) @ get_binary_ops_configs)
               @ get_share_qparams_ops_configs) @ get_bn_configs,
          backend_config_objects = bs0 @ [b5]\<rparr>)"
    and r5: "represents
        (((((ps0 @ get_linear_configs) @ get_conv_configs M) @ get_binary_ops_configs)
            @ get_share_qparams_ops_configs) @ get_bn_configs) b5 ?v5"
    by blast
  from call_with_group [OF get_cat_configs_obj_value r5, of bs0]
  obtain b6 where c6: "?call get_cat_configs_obj
        \<lparr>pattern_config_objects =
           ((((ps0 @ get_linear_configs) @ get_conv_configs M) @ get_binary_ops_configs)
               @ get_share_qparams_ops_configs) @ get_bn_configs,
         backend_config_objects = bs0 @ [b5]\<rparr>
      = (length bs0,
         \<lparr>pattern_config_objects =
            (((((ps0 @ get_linear_configs) @ get_conv_configs M) @ get_binary_ops_configs)
                @ get_share_qparams_ops_configs) @ get_bn_configs) @ get_cat_configs,
          backend_config_objects = bs0 @ [b6]\<rparr>)"
    and r6: "represents
        ((((((ps0 @ get_linear_configs) @ get_conv_configs M) @ get_binary_ops_configs)
            @ get_share_qparams_ops_configs) @ get_bn_configs) @ get_cat_configs) b6 ?v6"
    by blast
  have v6: "?v6 = get_executorch_backend_config M"
    by (simp add: get_executorch_backend_config_def chain_def)
  have "get_executorch_backend_config_obj M s
      = (length bs0,
         \<lparr>pattern_config_objects =
            (((((ps0 @ get_linear_configs) @ get_conv_configs M) @ get_binary_ops_configs)
                @ get_share_qparams_ops_configs) @ get_bn_configs) @ get_cat_configs,
          backend_config_objects = bs0 @ [b6]\<rparr>)"
    unfolding get_executorch_backend_config_obj_def BackendConfig_new_def s
    by (simp only: fold.simps comp_def prod.case store.simps c1 c2 c3 c4 c5 c6 id_def)
  with r6 v6 show ?thesis
    unfolding s
    by (intro exI [of _ b6]) simp
qed

lemma get_executorch_backend_config_obj_value:
  "\<exists>ps b. get_executorch_backend_config_obj M s
       = (length (backend_config_objects s),
          \<lparr>pattern_config_objects = pattern_config_objects s @ ps,
           backend_config_objects = backend_config_objects s @ [b]\<rparr>)
     \<and> represents (pattern_config_objects s @ ps) b (get_executorch_backend_config M)"
  using get_executorch_backend_config_obj_groups [of M s] by blast

text \<open>
  The frame of a call: every object of the store is afterwards as it was before; the
  call adds 24 pattern configs and one BackendConfig.
\<close>

lemma get_executorch_backend_config_obj_frame:
  assumes "get_executorch_backend_config_obj M s = (self, s')"
  shows "take (length (pattern_config_objects s)) (pattern_config_objects s')
           = pattern_config_objects s
    \<and> take (length (backend_config_objects s)) (backend_config_objects s')
           = backend_config_objects s
    \<and> length (pattern_config_objects s') = length (pattern_config_objects s) + 24
    \<and> length (backend_config_objects s') = length (backend_config_objects s) + 1"
proof -
  have "length (get_linear_configs @ get_conv_configs M @ get_binary_ops_configs
          @ get_share_qparams_ops_configs @ get_bn_configs @ get_cat_configs) = 24"
    by (simp add: get_linear_configs_def get_conv_configs_def get_binary_ops_configs_def
        get_share_qparams_ops_configs_def get_bn_configs_def get_cat_configs_def Let_def)
  with get_executorch_backend_config_obj_groups [of M s] assms show ?thesis
    by auto
qed

lemma read_backend_config_represents:
  "self < length (backend_config_objects s) \<Longrightarrow>
   represents (pattern_config_objects s) (backend_config_objects s ! self) v \<Longrightarrow>
   read_backend_config s self = Some v"
  by (simp add: read_backend_config_def represents_def)

lemma get_executorch_backend_config_obj_read:
  assumes "get_executorch_backend_config_obj M s = (self, s')"
  shows "self = length (backend_config_objects s)
    \<and> length (backend_config_objects s') = Suc (length (backend_config_objects s))
    \<and> read_backend_config s' self = Some (get_executorch_backend_config M)
    \<and> (\<forall>extra_ps extra_bs.
          read_backend_config
            \<lparr>pattern_config_objects = pattern_config_objects s' @ extra_ps,
             backend_config_objects = backend_config_objects s' @ extra_bs\<rparr> self
          = Some (get_executorch_backend_config M))"
proof -
  from get_executorch_backend_config_obj_value [of M s] assms
  obtain ps b where s': "s' = \<lparr>pattern_config_objects = pattern_config_objects s @ ps,
                              backend_config_objects = backend_config_objects s @ [b]\<rparr>"
    and self: "self = length (backend_config_objects s)"
    and rep: "represents (pattern_config_objects s @ ps) b (get_executorch_backend_config M)"
    by auto
  have "read_backend_config s' self = Some (get_executorch_backend_config M)"
    using rep by (intro read_backend_config_represents) (simp_all add: s' self)
  moreover have "read_backend_config
            \<lparr>pattern_config_objects = pattern_config_objects s' @ extra_ps,
             backend_config_objects = backend_config_objects s' @ extra_bs\<rparr> self
          = Some (get_executorch_backend_config M)" for extra_ps extra_bs
    using represents_append [OF rep, of extra_ps]
    by (intro read_backend_config_represents) (simp_all add: s' self nth_append)
  ultimately show ?thesis
    by (simp add: s' self)
qed

text \<open>
  C6. The configuration table is static. Whatever objects the store holds before (any
  input, any prior call), a call of \<open>get_executorch_backend_config\<close> returns a new
  BackendConfig whose value is the one value that the function denotes; so the results of
  any two calls are structurally equal: of a call and the next call after it (which
  leaves the first result as it was and returns another object), and of calls on two
  unrelated stores.
\<close>

theorem get_executorch_backend_config_static:
  assumes "get_executorch_backend_config_obj Conv2dMetadata s = (self, s')"
      and "get_executorch_backend_config_obj Conv2dMetadata s' = (self', s'')"
      and "get_executorch_backend_config_obj Conv2dMetadata t = (other, t')"
  shows "read_backend_config s' self = Some (get_executorch_backend_config Conv2dMetadata)
    \<and> read_backend_config s'' self' = read_backend_config s' self
    \<and> read_backend_config s'' self = read_backend_config s' self
    \<and> read_backend_config t' other = read_backend_config s' self
    \<and> self' \<noteq> self"
proof -
  note first = get_executorch_backend_config_obj_read [OF assms(1)]
  note second = get_executorch_backend_config_obj_read [OF assms(2)]
  note third = get_executorch_backend_config_obj_read [OF assms(3)]
  from get_executorch_backend_config_obj_value [of Conv2dMetadata s'] assms(2)
  obtain ps b where s'': "s'' = \<lparr>pattern_config_objects = pattern_config_objects s' @ ps,
                               backend_config_objects = backend_config_objects s' @ [b]\<rparr>"
    by auto
  have r1: "read_backend_config s' self = Some (get_executorch_backend_config Conv2dMetadata)"
    using first by blast
  have r2: "read_backend_config s'' self' = Some (get_executorch_backend_config Conv2dMetadata)"
    using second by blast
  have r3: "read_backend_config t' other = Some (get_executorch_backend_config Conv2dMetadata)"
    using third by blast
  have r4: "read_backend_config s'' self = Some (get_executorch_backend_config Conv2dMetadata)"
    unfolding s'' using first by blast
  have "self = length (backend_config_objects s)"
    and "self' = length (backend_config_objects s')"
    and "length (backend_config_objects s') = Suc (length (backend_config_objects s))"
    using first second by blast+
  then have "self' \<noteq> self"
    by simp
  with r1 r2 r3 r4 show ?thesis
    by simp
qed

theorem get_executorch_backend_config_static_witness:
  "read_backend_config (snd (get_executorch_backend_config_obj conv2d empty_store))
       (fst (get_executorch_backend_config_obj conv2d empty_store))
     = Some (get_executorch_backend_config conv2d)
   \<and> read_backend_config
       (snd (get_executorch_backend_config_obj conv2d
               (snd (get_executorch_backend_config_obj conv2d empty_store))))
       (fst (get_executorch_backend_config_obj conv2d
               (snd (get_executorch_backend_config_obj conv2d empty_store))))
     = Some (get_executorch_backend_config conv2d)
   \<and> read_backend_config
       (snd (get_executorch_backend_config_obj conv2d
               (snd (get_executorch_backend_config_obj conv2d empty_store))))
       (fst (get_executorch_backend_config_obj conv2d empty_store))
     = Some (get_executorch_backend_config conv2d)
   \<and> read_backend_config (snd (get_executorch_backend_config_obj conv2d used_store))
       (fst (get_executorch_backend_config_obj conv2d used_store))
     = Some (get_executorch_backend_config conv2d)
   \<and> fst (get_executorch_backend_config_obj conv2d empty_store) = 0
   \<and> fst (get_executorch_backend_config_obj conv2d
               (snd (get_executorch_backend_config_obj conv2d empty_store))) = 1
   \<and> fst (get_executorch_backend_config_obj conv2d used_store) = 1"
proof -
  let ?run = "get_executorch_backend_config_obj conv2d"
  have a0: "fst (?run empty_store) = 0"
    using get_executorch_backend_config_obj_read [of conv2d empty_store]
    by (simp add: empty_store_def prod_eq_iff)
  have a1: "fst (?run (snd (?run empty_store))) = 1"
    using get_executorch_backend_config_obj_read [of conv2d empty_store]
      get_executorch_backend_config_obj_read [of conv2d "snd (?run empty_store)"]
    by (simp add: empty_store_def prod_eq_iff)
  have a2: "fst (?run used_store) = 1"
    using get_executorch_backend_config_obj_read [of conv2d used_store]
    by (simp add: used_store_def prod_eq_iff)
  from get_executorch_backend_config_static
         [where Conv2dMetadata = conv2d and s = empty_store and t = used_store,
          OF surjective_pairing surjective_pairing surjective_pairing]
  show ?thesis
    using a0 a1 a2 by simp
qed


section \<open>Properties of the reporting script\<close>

subsection \<open>The loops of the script\<close>

lemma dict_set_keys: "fst ` set (dict_set k v d) = insert k (fst ` set d)"
  by (induction k v d rule: dict_set.induct) (simp_all add: insert_commute)

lemma fold_add_if_canonical_keys:
  "fst ` set (fold add_if_canonical nfs acc)
     = fst ` set acc \<union>
       (\<lambda>f. FunctionSchema.name (NativeFunction.func f)) ` {f \<in> set nfs. ''canonical'' \<in> tags f}"
  by (induction nfs arbitrary: acc) (auto simp: add_if_canonical_def dict_set_keys)

lemma fold_add_if_canonical_items:
  "(k, f) \<in> set (fold add_if_canonical nfs acc) \<Longrightarrow>
     (k, f) \<in> set acc \<or>
     (f \<in> set nfs \<and> ''canonical'' \<in> tags f \<and> k = FunctionSchema.name (NativeFunction.func f))"
proof (induction nfs arbitrary: acc)
  case Nil
  then show ?case by simp
next
  case (Cons a nfs)
  from Cons.prems have "(k, f) \<in> set (fold add_if_canonical nfs (add_if_canonical a acc))"
    by simp
  from Cons.IH [OF this] show ?case
    by (auto simp: add_if_canonical_def dest: dict_set_items split: if_splits)
qed

text \<open>
  When no two functions have the same name, the loop keeps the canonical functions in
  the order of the list, each under its name.
\<close>

lemma fold_add_if_canonical_distinct:
  "distinct (map (\<lambda>f. FunctionSchema.name (NativeFunction.func f)) nfs) \<Longrightarrow>
   (\<lambda>f. FunctionSchema.name (NativeFunction.func f)) ` set nfs \<inter> fst ` set acc = {} \<Longrightarrow>
   fold add_if_canonical nfs acc
     = acc @ map (\<lambda>f. (FunctionSchema.name (NativeFunction.func f), f))
               (filter (\<lambda>f. ''canonical'' \<in> tags f) nfs)"
proof (induction nfs arbitrary: acc)
  case Nil
  then show ?case by simp
next
  case (Cons a nfs)
  let ?n = "\<lambda>f. FunctionSchema.name (NativeFunction.func f)"
  have fresh: "?n a \<notin> fst ` set acc"
    using Cons.prems(2) by auto
  have d: "distinct (map ?n nfs)"
    using Cons.prems(1) by simp
  have "?n ` set nfs \<inter> fst ` set (add_if_canonical a acc) = {}"
    using Cons.prems by (auto simp: add_if_canonical_def dict_set_keys)
  from Cons.IH [OF d this] show ?case
    by (simp add: add_if_canonical_def dict_set_fresh [OF fresh])
qed


lemma fold_schema_rows:
  "fold (\<lambda>op table. table @ [schema_row op]) xs acc = acc @ map schema_row xs"
  by (induction xs arbitrary: acc) simp_all

lemma Dialect_init_ops:
  "ops (Dialect_init n nfs g v) = fold add_if_canonical nfs []"
  by (simp add: Dialect_init_def Let_def)

lemma Dialect_init_ops_distinct:
  assumes "distinct (map (\<lambda>f. FunctionSchema.name (NativeFunction.func f)) nfs)"
  shows "ops (Dialect_init n nfs g v)
      = map (\<lambda>f. (FunctionSchema.name (NativeFunction.func f), f))
            (filter (\<lambda>f. ''canonical'' \<in> tags f) nfs)"
  using fold_add_if_canonical_distinct [OF assms, of "[]"] by (simp add: Dialect_init_ops)


lemmas sample_defs = add_Tensor_def add_Tensor_untagged_def add_Tensor_again_def
  batch_norm_functional_def add__Tensor_def add_out_def
  relu_inplace_def add_groups_def no_groups_def

subsection \<open>The ops of a dialect\<close>

text \<open>
  C3, as stated, at a list in which two entries have the same name. The entry
  \<open>add_Tensor_untagged\<close> of the parsed list is not tagged "canonical", and still
  \<open>self.ops\<close> has an entry keyed by its \<open>func.name\<close>: the one of \<open>add_Tensor\<close>.
\<close>

theorem Dialect_init_ops_same_name:
  "add_Tensor_untagged \<in> set [add_Tensor, add_Tensor_untagged]
   \<and> ''canonical'' \<notin> tags add_Tensor_untagged
   \<and> FunctionSchema.name (NativeFunction.func add_Tensor_untagged)
        \<in> set (dict_keys (ops (Dialect_init ''aten'' [add_Tensor, add_Tensor_untagged]
                                  no_groups no_groups)))
   \<and> ops (Dialect_init ''aten'' [add_Tensor, add_Tensor_untagged] no_groups no_groups)
        = [(''add.Tensor'', add_Tensor)]"
  by (simp add: Dialect_init_ops add_if_canonical_def dict_keys_def add_Tensor_def
      add_Tensor_untagged_def)

text \<open>
  C3, amended. For every parsed native-function list, \<open>self.ops\<close> has an entry keyed by
  a name if and only if some parsed NativeFunction of that \<open>func.name\<close> has "canonical"
  among its tags, and every record in \<open>self.ops\<close> is a record of the parsed list, as the
  parser produced it, tagged "canonical" and stored under its own \<open>func.name\<close>. When the
  names of the list are pairwise distinct, the entry keyed by \<open>function.func.name\<close> is
  in \<open>self.ops\<close> if and only if \<open>function\<close> itself is tagged "canonical", and the
  values of \<open>self.ops\<close> are the list filtered by the tag.
\<close>

theorem Dialect_init_ops_canonical:
  "(\<forall>k. k \<in> set (dict_keys (ops (Dialect_init n nfs g v))) \<longleftrightarrow>
        (\<exists>f \<in> set nfs. FunctionSchema.name (NativeFunction.func f) = k \<and> ''canonical'' \<in> tags f))
   \<and> (\<forall>(k, f) \<in> set (ops (Dialect_init n nfs g v)).
        f \<in> set nfs \<and> FunctionSchema.name (NativeFunction.func f) = k \<and> ''canonical'' \<in> tags f)
   \<and> (distinct (map (\<lambda>f. FunctionSchema.name (NativeFunction.func f)) nfs) \<longrightarrow>
        (\<forall>f \<in> set nfs. FunctionSchema.name (NativeFunction.func f)
                            \<in> set (dict_keys (ops (Dialect_init n nfs g v)))
                          \<longleftrightarrow> ''canonical'' \<in> tags f)
        \<and> dict_values (ops (Dialect_init n nfs g v)) = filter (\<lambda>f. ''canonical'' \<in> tags f) nfs)"
proof (intro conjI allI impI)
  fix k
  show "k \<in> set (dict_keys (ops (Dialect_init n nfs g v))) \<longleftrightarrow>
        (\<exists>f \<in> set nfs. FunctionSchema.name (NativeFunction.func f) = k \<and> ''canonical'' \<in> tags f)"
    using fold_add_if_canonical_keys [of nfs "[]"]
    by (auto simp: Dialect_init_ops dict_keys_def)
next
  show "\<forall>(k, f) \<in> set (ops (Dialect_init n nfs g v)).
        f \<in> set nfs \<and> FunctionSchema.name (NativeFunction.func f) = k \<and> ''canonical'' \<in> tags f"
    by (auto simp: Dialect_init_ops dest: fold_add_if_canonical_items)
next
  assume d: "distinct (map (\<lambda>f. FunctionSchema.name (NativeFunction.func f)) nfs)"
  note eq = Dialect_init_ops_distinct [OF d, of n g v]
  show "dict_values (ops (Dialect_init n nfs g v)) = filter (\<lambda>f. ''canonical'' \<in> tags f) nfs"
    by (simp add: eq dict_values_def comp_def)
  show "\<forall>f \<in> set nfs. FunctionSchema.name (NativeFunction.func f)
                            \<in> set (dict_keys (ops (Dialect_init n nfs g v)))
                          \<longleftrightarrow> ''canonical'' \<in> tags f"
  proof
    fix f assume f: "f \<in> set nfs"
    have "\<And>f'. f' \<in> set nfs \<Longrightarrow>
        FunctionSchema.name (NativeFunction.func f') = FunctionSchema.name (NativeFunction.func f)
        \<Longrightarrow> f' = f"
      using d f by (meson distinct_map inj_onD)
    then show "FunctionSchema.name (NativeFunction.func f)
                 \<in> set (dict_keys (ops (Dialect_init n nfs g v)))
               \<longleftrightarrow> ''canonical'' \<in> tags f"
      using f by (auto simp: eq dict_keys_def comp_def)
  qed
qed

theorem Dialect_init_ops_canonical_witness:
  "distinct (map (\<lambda>f. FunctionSchema.name (NativeFunction.func f))
       [add_Tensor, add__Tensor, add_out, relu_inplace])
   \<and> dict_values (ops (Dialect_init ''aten'' [add_Tensor, add__Tensor, add_out, relu_inplace]
                        add_groups no_groups))
       = [add_Tensor, relu_inplace]
   \<and> FunctionSchema.name (NativeFunction.func relu_inplace)
       \<in> set (dict_keys (ops (Dialect_init ''aten''
                [add_Tensor, add__Tensor, add_out, relu_inplace] add_groups no_groups)))
   \<and> FunctionSchema.name (NativeFunction.func add_out)
       \<notin> set (dict_keys (ops (Dialect_init ''aten''
                [add_Tensor, add__Tensor, add_out, relu_inplace] add_groups no_groups)))"
proof -
  have d: "distinct (map (\<lambda>f. FunctionSchema.name (NativeFunction.func f))
       [add_Tensor, add__Tensor, add_out, relu_inplace])"
    by (simp add: sample_defs)
  from Dialect_init_ops_canonical
         [of "''aten''" "[add_Tensor, add__Tensor, add_out, relu_inplace]" add_groups no_groups] d
  have "(\<forall>f \<in> set [add_Tensor, add__Tensor, add_out, relu_inplace].
           FunctionSchema.name (NativeFunction.func f)
             \<in> set (dict_keys (ops (Dialect_init ''aten''
                  [add_Tensor, add__Tensor, add_out, relu_inplace] add_groups no_groups)))
           \<longleftrightarrow> ''canonical'' \<in> tags f)"
    and "dict_values (ops (Dialect_init ''aten'' [add_Tensor, add__Tensor, add_out, relu_inplace]
                        add_groups no_groups))
       = filter (\<lambda>f. ''canonical'' \<in> tags f) [add_Tensor, add__Tensor, add_out, relu_inplace]"
    by blast+
  then show ?thesis
    using d by (simp add: add_Tensor_def add__Tensor_def add_out_def relu_inplace_def)
qed

subsection \<open>The schema table\<close>

text \<open>
  C4. With \<open>tabulate\<close> imported, \<open>print_schema\<close> prints one table with the header
  op, schema, aliased_return_names and one row per op of \<open>self.ops\<close>, in the order of
  \<open>self.ops\<close>: the row holds the op's name, its schema signature and its aliased return
  names, and the third cell is 'N/A' exactly when every aliased return name of the op is
  None (otherwise it is the list of names).
\<close>

theorem print_schema_rows:
  "\<exists>table. print_schema True self = Inr [Table [''op'', ''schema'', ''aliased_return_names''] table]
     \<and> length table = length (ops self)
     \<and> (\<forall>i < length table.
          length (table ! i) = 3
        \<and> table ! i ! 0 = Name (FunctionSchema.name (NativeFunction.func (dict_values (ops self) ! i)))
        \<and> table ! i ! 1 = Schema (signature (NativeFunction.func (dict_values (ops self) ! i)))
        \<and> (table ! i ! 2 = Text ''N/A'' \<longleftrightarrow>
             (\<forall>a \<in> set (aliased_return_names (NativeFunction.func (dict_values (ops self) ! i))).
                a = None))
        \<and> (table ! i ! 2 \<noteq> Text ''N/A'' \<longrightarrow>
             table ! i ! 2
               = ReturnNames (aliased_return_names (NativeFunction.func (dict_values (ops self) ! i)))))"
proof -
  have "print_schema True self
          = Inr [Table [''op'', ''schema'', ''aliased_return_names'']
                   (map schema_row (dict_values (ops self)))]"
    by (simp add: print_schema_def Let_def fold_schema_rows)
  then show ?thesis
    by (simp add: dict_values_def schema_row_def Let_def list_all_iff)
qed

theorem print_schema_rows_witness:
  "\<exists>table. print_schema True (Dialect_init ''aten'' [add_Tensor, add_out, relu_inplace]
                                 add_groups no_groups)
              = Inr [Table [''op'', ''schema'', ''aliased_return_names''] table]
     \<and> length table = 2
     \<and> table ! 0 ! 0 = Name ''add.Tensor''
     \<and> table ! 0 ! 2 = Text ''N/A''
     \<and> table ! 1 ! 0 = Name ''relu_''
     \<and> table ! 1 ! 1 = Schema ''relu(Tensor self) -> Tensor''
     \<and> table ! 1 ! 2 = ReturnNames [Some ''self'']"
proof -
  let ?d = "Dialect_init ''aten'' [add_Tensor, add_out, relu_inplace] add_groups no_groups"
  have ops: "ops ?d = [(''add.Tensor'', add_Tensor), (''relu_'', relu_inplace)]"
    by (simp add: Dialect_init_ops add_if_canonical_def add_Tensor_def add_out_def
        relu_inplace_def)
  from print_schema_rows [of ?d] obtain table where
    t: "print_schema True ?d = Inr [Table [''op'', ''schema'', ''aliased_return_names''] table]"
    and len: "length table = length (ops ?d)"
    and rows: "\<forall>i < length table.
          length (table ! i) = 3
        \<and> table ! i ! 0 = Name (FunctionSchema.name (NativeFunction.func (dict_values (ops ?d) ! i)))
        \<and> table ! i ! 1 = Schema (signature (NativeFunction.func (dict_values (ops ?d) ! i)))
        \<and> (table ! i ! 2 = Text ''N/A'' \<longleftrightarrow>
             (\<forall>a \<in> set (aliased_return_names (NativeFunction.func (dict_values (ops ?d) ! i))).
                a = None))
        \<and> (table ! i ! 2 \<noteq> Text ''N/A'' \<longrightarrow>
             table ! i ! 2
               = ReturnNames (aliased_return_names (NativeFunction.func (dict_values (ops ?d) ! i))))"
    by blast
  have l2: "length table = 2"
    using len by (simp add: ops)
  from rows [rule_format, of 0] rows [rule_format, of 1] l2
  have "table ! 0 ! 0 = Name ''add.Tensor''"
    and "table ! 0 ! 2 = Text ''N/A''"
    and "table ! 1 ! 0 = Name ''relu_''"
    and "table ! 1 ! 1 = Schema ''relu(Tensor self) -> Tensor''"
    and "table ! 1 ! 2 = ReturnNames [Some ''self'']"
    unfolding ops by (simp_all add: dict_values_def add_Tensor_def relu_inplace_def)
  with t l2 show ?thesis by blast
qed

subsection \<open>The functional flag\<close>




subsection \<open>The tables of the script\<close>

text \<open>
  C2, as stated, at the sample metadata: the script prints three tables, not two, and
  the third one, printed by \<open>print_schema\<close>, is none of the tables of
  \<open>print_tabular\<close>.
\<close>

theorem aten_docgen_prints_schema_table:
  "filter is_table (fst (aten_docgen True [add_Tensor, add__Tensor, add_out] add_groups no_groups))
     = [Table [''functional'', ''out'', ''inplace'']
          [[Name ''add.Tensor'', Name ''add.out'', Name ''add_.Tensor'']],
        Table [''view'', ''view_copy'', ''view_inplace''] [],
        Table [''op'', ''schema'', ''aliased_return_names'']
          [[Name ''add.Tensor'',
            Schema ''add(Tensor self, Tensor other, *, Scalar alpha=1) -> Tensor'',
            Text ''N/A'']]]
   \<and> length (filter is_table
        (fst (aten_docgen True [add_Tensor, add__Tensor, add_out] add_groups no_groups))) \<noteq> 2
   \<and> print_tabular True (Dialect_init ''aten'' [add_Tensor, add__Tensor, add_out]
        add_groups no_groups)
     = Inr [Table [''functional'', ''out'', ''inplace'']
              [[Name ''add.Tensor'', Name ''add.out'', Name ''add_.Tensor'']],
            Line [],
            Table [''view'', ''view_copy'', ''view_inplace''] []]"
  by (simp add: aten_docgen_def print_tabular_def print_schema_def Dialect_init_def
      add_if_canonical_def clear_if_not_functional_def schema_row_def name_or_NA_def
      is_functional_def str_bool_def dict_keys_def dict_values_def Let_def sample_defs)

text \<open>
  C2, amended. When the reporting script runs with \<open>tabulate\<close> imported, it prints
  exactly three tables: the two tables of \<open>print_tabular\<close>, then the table of
  \<open>print_schema\<close>, and after them the line with \<open>is_functional\<close>; no exception ends
  the script.
\<close>

theorem aten_docgen_tables:
  "\<exists>tabular schema.
      print_tabular True (Dialect_init ''aten'' nfs g v) = Inr tabular
    \<and> print_schema True (Dialect_init ''aten'' nfs g v) = Inr schema
    \<and> aten_docgen True nfs g v
        = (tabular @ schema @ [Line (str_bool (is_functional (Dialect_init ''aten'' nfs g v)))], None)
    \<and> filter is_table (fst (aten_docgen True nfs g v)) = filter is_table tabular @ schema
    \<and> length (filter is_table tabular) = 2
    \<and> length schema = 1
    \<and> length (filter is_table (fst (aten_docgen True nfs g v))) = 3"
  by (simp add: aten_docgen_def print_tabular_def print_schema_def Let_def)

theorem aten_docgen_tables_witness:
  "length (filter is_table
      (fst (aten_docgen True [add_Tensor, add__Tensor, add_out, relu_inplace]
             add_groups no_groups))) = 3
   \<and> snd (aten_docgen True [add_Tensor, add__Tensor, add_out, relu_inplace]
             add_groups no_groups) = None"
  using aten_docgen_tables [of "[add_Tensor, add__Tensor, add_out, relu_inplace]"
          add_groups no_groups]
  by auto

end
